theory Spec2Isabelle
  imports Main
begin

section \<open>The Incus machine driver: data model\<close>

text \<open>
  The driver of \<^verbatim>\<open>pkg/drivers/incus/incus.go\<close>, embedded function by function.
  A Go \<^verbatim>\<open>error\<close> value is represented by its message; \<^verbatim>\<open>nil\<close> is \<open>None\<close>
  (or the \<open>Inr\<close> side of a sum when the function also returns a value).
\<close>

type_synonym error = string

text \<open>
  Go maps and pointers are references. The maps live in the list \<open>maps\<close> of the world and
  the \<^verbatim>\<open>api.InstanceSource\<close> structures in the list \<open>sources\<close>; a reference is an
  index into its list and \<open>None\<close> is \<^verbatim>\<open>nil\<close>. Nothing is ever freed, so allocation
  appends.
\<close>

type_synonym addr = nat
type_synonym gomap = "string \<rightharpoonup> string"

text \<open>\<^verbatim>\<open>api.InstanceSource\<close>, the four fields the driver sets; empty is Go's zero value.\<close>

record InstanceSource =
  src_Type :: string
  Alias :: string
  Server :: string
  Protocol :: string

text \<open>The project-scoped server handle that \<^verbatim>\<open>is.UseProject(d.Project)\<close> returns.\<close>

datatype InstanceServer = UseProject string

text \<open>
  \<^verbatim>\<open>Driver\<close> with the fields of the embedded \<^verbatim>\<open>BaseDriver\<close> that the driver reads or
  writes (\<open>IPAddress\<close>, \<open>MachineName\<close>, \<open>SSHUser\<close> and the three swarm fields). The field
  \<^verbatim>\<open>state\<close> is never used by the source and is left out. The numbers are Go's
  \<^verbatim>\<open>int\<close>; the driver copies and prints them and never computes with them, so the
  integers stand for them.
\<close>

record Driver =
  IPAddress :: string
  MachineName :: string
  SSHUser :: string
  SwarmMaster :: bool
  SwarmHost :: string
  SwarmDiscovery :: string
  URL :: string
  TLSClientCert :: string
  TLSClientKey :: string
  CPU :: int
  Memory :: int
  DiskSize :: int
  Project :: string
  Profile :: string
  Network :: string
  Storage :: string
  Image :: string
  CloudInitUserData :: string
  SSHPort :: int
  incus :: "InstanceServer option"
  sshPublicKey :: string
  imgConfig :: "addr option"
  netConfig :: "addr option"
  diskConfig :: "addr option"
  rsrcConfig :: "addr option"
  isOVN :: bool

subsection \<open>The remote server and the other collaborators\<close>

text \<open>
  \<^verbatim>\<open>api.StatusCode\<close> of the Incus client library, with its \<^verbatim>\<open>String()\<close> table.
\<close>

datatype StatusCode =
    OperationCreated | Started | Stopped | Running | Cancelling | Pending
  | Starting | Stopping | Aborting | Freezing | Frozen | Thawed | Error | Ready
  | Success | Failure | Cancelled

fun StatusCode_String :: "StatusCode \<Rightarrow> string" where
  "StatusCode_String OperationCreated = ''Operation created''"
| "StatusCode_String Started = ''Started''"
| "StatusCode_String Stopped = ''Stopped''"
| "StatusCode_String Running = ''Running''"
| "StatusCode_String Cancelling = ''Cancelling''"
| "StatusCode_String Pending = ''Pending''"
| "StatusCode_String Starting = ''Starting''"
| "StatusCode_String Stopping = ''Stopping''"
| "StatusCode_String Aborting = ''Aborting''"
| "StatusCode_String Freezing = ''Freezing''"
| "StatusCode_String Frozen = ''Frozen''"
| "StatusCode_String Thawed = ''Thawed''"
| "StatusCode_String Error = ''Error''"
| "StatusCode_String Ready = ''Ready''"
| "StatusCode_String Success = ''Success''"
| "StatusCode_String Failure = ''Failure''"
| "StatusCode_String Cancelled = ''Cancelled''"

record InstanceStateNetworkAddress =
  Family :: string
  Address :: string
  Netmask :: string
  Scope :: string

record InstanceStateNetwork =
  Addresses :: "InstanceStateNetworkAddress list"

text \<open>
  \<^verbatim>\<open>api.InstanceState\<close>. Its \<^verbatim>\<open>Network\<close> field is a Go map from interface name to
  \<^verbatim>\<open>InstanceStateNetwork\<close>, and \<^verbatim>\<open>range\<close> visits a map in an order of the runtime's
  choosing: the field is the list of the entries in the order in which the
  \<^verbatim>\<open>range\<close> of this response visits them (empty for a nil map).
\<close>

record InstanceState =
  StatusCode :: StatusCode
  st_Network :: "(string \<times> InstanceStateNetwork) list"

text \<open>\<^verbatim>\<open>api.Network\<close>: only the type is read.\<close>

record api_Network =
  net_Type :: string

record InstanceStatePut =
  Action :: string
  Force :: bool

text \<open>An operation handle; \<open>Wait\<close> is what \<^verbatim>\<open>op.Wait()\<close> returns for it.\<close>

datatype Operation = Operation (Wait: "error option")

text \<open>
  \<^verbatim>\<open>api.InstancesPost\<close> with the embedded \<^verbatim>\<open>api.InstancePut\<close>, as it is handed to
  \<^verbatim>\<open>CreateInstance\<close>: the maps it refers to are given by their content at the time of
  the call, a nil device map by \<open>None\<close>.
\<close>

record InstancesPost =
  req_Name :: string
  req_Type :: string
  Start :: bool
  Source :: InstanceSource
  Profiles :: "string list"
  Description :: string
  Config :: gomap
  Devices :: "string \<rightharpoonup> gomap option"

text \<open>
  Everything outside the driver is a parameter: one answer per request of the Incus
  client (\<^verbatim>\<open>ConnectIncus\<close> and the methods of \<^verbatim>\<open>InstanceServer\<close>), of the image
  index (\<^verbatim>\<open>ConnectSimpleStreams\<close> and its \<^verbatim>\<open>GetImageAlias\<close>), of the SSH key
  generator and of the file system. Two requests are repeated within one operation
  and may be answered differently each time: the state query of the waiting loop, so
  \<open>GetInstanceState\<close> takes the number of state queries issued before, and the
  connection (\<open>Remove\<close> connects once inside \<open>Kill\<close> and once more if that failed),
  so \<open>ConnectIncus\<close> and the \<open>GetProject\<close> that follows it take the number of
  connections attempted before. \<open>SSHKeyPath\<close> is
  what \<^verbatim>\<open>BaseDriver.GetSSHKeyPath\<close> returns, and \<open>Sprintf0\<close> is \<^verbatim>\<open>fmt.Sprintf\<close> of a
  format without operands (line 524 builds the format from the error text).
\<close>

record env =
  SSHKeyPath :: string
  GenerateSSHKey :: "string \<Rightarrow> error option"
  ReadFile :: "string \<Rightarrow> error + string"
  Sprintf0 :: "string \<Rightarrow> string"
  ConnectIncus :: "nat \<Rightarrow> string \<Rightarrow> string \<Rightarrow> string \<Rightarrow> error option"
  GetProject :: "nat \<Rightarrow> string \<Rightarrow> error option"
  GetProfile :: "InstanceServer \<Rightarrow> string \<Rightarrow> error option"
  GetImageAlias :: "InstanceServer \<Rightarrow> string \<Rightarrow> error option"
  ConnectSimpleStreams :: "string \<Rightarrow> error option"
  SimpleStreams_GetImageAlias :: "string \<Rightarrow> error option"
  GetNetwork :: "InstanceServer \<Rightarrow> string \<Rightarrow> error + api_Network"
  GetStoragePool :: "InstanceServer \<Rightarrow> string \<Rightarrow> error option"
  CreateInstance :: "InstanceServer \<Rightarrow> InstancesPost \<Rightarrow> error + Operation"
  GetInstanceState :: "InstanceServer \<Rightarrow> nat \<Rightarrow> string \<Rightarrow> error + InstanceState"
  UpdateInstanceState :: "InstanceServer \<Rightarrow> string \<Rightarrow> InstanceStatePut \<Rightarrow> error + Operation"
  DeleteInstance :: "InstanceServer \<Rightarrow> string \<Rightarrow> error + Operation"

text \<open>
  The calls that leave the driver, in the order in which they are made; the creation
  request is recorded as it is submitted.
\<close>

datatype call =
    CallGenerateSSHKey string
  | CallReadFile string
  | CallConnectIncus string
  | CallGetProject string
  | CallGetProfile string
  | CallGetImageAlias string
  | CallConnectSimpleStreams string
  | CallSimpleStreamsGetImageAlias string
  | CallGetNetwork string
  | CallGetStoragePool string
  | CallCreateInstance InstancesPost
  | CallWait
  | CallGetInstanceState string
  | CallUpdateInstanceState string string bool
  | CallDeleteInstance string
  | CallSleep nat

record world =
  maps :: "gomap list"
  sources :: "InstanceSource list"
  calls :: "call list"

definition emit :: "call \<Rightarrow> world \<Rightarrow> world" where
  "emit c w = w\<lparr>calls := calls w @ [c]\<rparr>"

definition new_map :: "gomap \<Rightarrow> world \<Rightarrow> addr \<times> world" where
  "new_map m w = (length (maps w), w\<lparr>maps := maps w @ [m]\<rparr>)"

definition new_source :: "InstanceSource \<Rightarrow> world \<Rightarrow> addr \<times> world" where
  "new_source s w = (length (sources w), w\<lparr>sources := sources w @ [s]\<rparr>)"

text \<open>\<^verbatim>\<open>m[k] = v\<close> through the reference \<open>a\<close>.\<close>

definition map_store :: "addr \<Rightarrow> string \<Rightarrow> string \<Rightarrow> world \<Rightarrow> world" where
  "map_store a k v w = w\<lparr>maps := (maps w)[a := (maps w ! a)(k \<mapsto> v)]\<rparr>"

fun is_state_query :: "call \<Rightarrow> bool" where
  "is_state_query (CallGetInstanceState _) = True"
| "is_state_query _ = False"

fun is_sleep :: "call \<Rightarrow> bool" where
  "is_sleep (CallSleep _) = True"
| "is_sleep _ = False"

fun is_connect :: "call \<Rightarrow> bool" where
  "is_connect (CallConnectIncus _) = True"
| "is_connect _ = False"

definition connects :: "world \<Rightarrow> nat" where
  "connects w = length (filter is_connect (calls w))"

definition state_queries :: "world \<Rightarrow> nat" where
  "state_queries w = length (filter is_state_query (calls w))"

definition sleeps :: "world \<Rightarrow> nat" where
  "sleeps w = length (filter is_sleep (calls w))"

section \<open>Create: the loop that waits for an address\<close>

definition maxRetries :: nat where
  "maxRetries = 100"

text \<open>The inner \<^verbatim>\<open>range net.Addresses\<close> and the outer \<^verbatim>\<open>range state.Network\<close>.\<close>

fun scan_addresses :: "InstanceStateNetworkAddress list \<Rightarrow> InstanceStateNetworkAddress option" where
  "scan_addresses [] = None"
| "scan_addresses (addr # rest) =
     (if Family addr = ''inet'' \<and> Scope addr \<noteq> ''local'' then Some addr
      else scan_addresses rest)"

fun scan_networks :: "(string \<times> InstanceStateNetwork) list \<Rightarrow> InstanceStateNetworkAddress option" where
  "scan_networks [] = None"
| "scan_networks ((name, net) # rest) =
     (case scan_addresses (Addresses net) of
        Some addr \<Rightarrow> Some addr
      | None \<Rightarrow> scan_networks rest)"

definition terminal_statuses :: "StatusCode list" where
  "terminal_statuses = [Aborting, Freezing, Frozen, Thawed, Error, Failure, Cancelled]"

text \<open>
  Lines 247 to 273: the \<^verbatim>\<open>for\<close> loop of \<^verbatim>\<open>Create\<close>, entered with \<open>retry = 0\<close>. The
  counter only counts up from 0 to 101, so a natural number stands for Go's \<^verbatim>\<open>int\<close>.
\<close>

function Create_loop ::
  "env \<Rightarrow> InstanceServer \<Rightarrow> Driver \<Rightarrow> world \<Rightarrow> nat \<Rightarrow> error option \<times> Driver \<times> world" where
  "Create_loop e client d w retry =
     (let w1 = emit (CallGetInstanceState (MachineName d)) w in
      case GetInstanceState e client (state_queries w) (MachineName d) of
        Inl err \<Rightarrow> (Some err, d, w1)
      | Inr state \<Rightarrow>
          if StatusCode state \<in> set terminal_statuses
          then (Some (''instance state is '' @ StatusCode_String (StatusCode state)), d, w1)
          else (case scan_networks (st_Network state) of
                  Some addr \<Rightarrow> (None, d\<lparr>IPAddress := Address addr\<rparr>, w1)
                | None \<Rightarrow>
                    let w2 = emit (CallSleep 5) w1 in
                    if retry + 1 > maxRetries
                    then (Some ''timeout waiting for instance to get IP address'', d, w2)
                    else Create_loop e client d w2 (retry + 1)))"
  by pat_completeness auto
termination
  by (relation "measure (\<lambda>(e, client, d, w, retry). maxRetries + 1 - retry)") auto

declare Create_loop.simps [simp del]

section \<open>Resolution of the resource limits\<close>

text \<open>\<^verbatim>\<open>%d\<close> of \<^verbatim>\<open>fmt.Sprintf\<close>: the decimal digits, with a minus sign below zero.\<close>

fun digits :: "nat \<Rightarrow> string" where
  "digits n = (if n < 10 then [''0123456789'' ! n] else digits (n div 10) @ [''0123456789'' ! (n mod 10)])"

declare digits.simps [simp del]

definition Sprintf_d :: "int \<Rightarrow> string" where
  "Sprintf_d i = (if i < 0 then ''-'' @ digits (nat (- i)) else digits (nat i))"

definition getResource :: "Driver \<Rightarrow> world \<Rightarrow> (error + addr) \<times> world" where
  "getResource d w =
     (let (a, w1) = new_map [''limits.cpu'' \<mapsto> Sprintf_d (CPU d),
                             ''limits.memory'' \<mapsto> Sprintf_d (Memory d) @ ''MiB''] w
      in (Inr a, w1))"


section \<open>Constants\<close>

definition driverName :: string where
  "driverName = ''incus''"

definition defaultCpus :: int where
  "defaultCpus = 1"

definition defaultMemory :: int where
  "defaultMemory = 1024"

definition defaultDiskSize :: int where
  "defaultDiskSize = 10240"

definition defaultProject :: string where
  "defaultProject = ''default''"

definition defaultProfile :: string where
  "defaultProfile = ''default''"

definition defaultNetwork :: string where
  "defaultNetwork = ''incusbr0''"

definition defaultStorage :: string where
  "defaultStorage = ''local''"

definition defaultSSHUser :: string where
  "defaultSSHUser = ''root''"

definition defaultSSHPort :: int where
  "defaultSSHPort = 22"

definition imageServer :: string where
  "imageServer = ''https://images.linuxcontainers.org''"



section \<open>The server handle and the SSH key\<close>

definition getClient :: "env \<Rightarrow> Driver \<Rightarrow> world \<Rightarrow> (error + InstanceServer) \<times> Driver \<times> world" where
  "getClient e d w =
     (case incus d of
        Some client \<Rightarrow> (Inr client, d, w)
      | None \<Rightarrow>
          let w1 = emit (CallConnectIncus (URL d)) w in
          (case ConnectIncus e (connects w) (URL d) (TLSClientCert d) (TLSClientKey d) of
            Some err \<Rightarrow> (Inl (Sprintf0 e (''failed to connect to incus: '' @ err)), d, w1)
          | None \<Rightarrow>
              let w2 = emit (CallGetProject (Project d)) w1 in
              (case GetProject e (connects w) (Project d) of
                Some err \<Rightarrow> (Inl (''project '' @ Project d @ '' not found: '' @ err), d, w2)
              | None \<Rightarrow>
                  (Inr (UseProject (Project d)), d\<lparr>incus := Some (UseProject (Project d))\<rparr>, w2))))"



section \<open>The configuration resolver\<close>

definition getImage :: "env \<Rightarrow> Driver \<Rightarrow> world \<Rightarrow> (error + addr) \<times> Driver \<times> world" where
  "getImage e d w =
     (if Image d = [] then (Inl ''image is required'', d, w)
      else
        (case getClient e d w of
          (Inl err, d1, w1) \<Rightarrow> (Inl err, d1, w1)
        | (Inr client, d1, w1) \<Rightarrow>
            let w2 = emit (CallGetImageAlias (Image d1)) w1 in
            (case GetImageAlias e client (Image d1) of
              None \<Rightarrow>
                let (a, w3) = new_source \<lparr>src_Type = ''image'', Alias = Image d1,
                                           Server = [], Protocol = []\<rparr> w2
                in (Inr a, d1, w3)
            | Some err1 \<Rightarrow>
                let w3 = emit (CallConnectSimpleStreams imageServer) w2 in
                (case ConnectSimpleStreams e imageServer of
                  Some err \<Rightarrow> (Inl (''failed to connect to image server: '' @ err), d1, w3)
                | None \<Rightarrow>
                    let w4 = emit (CallSimpleStreamsGetImageAlias (Image d1)) w3 in
                    (case SimpleStreams_GetImageAlias e (Image d1) of
                      Some err \<Rightarrow>
                        (Inl (''image '' @ Image d1 @ '' not found in image server''), d1, w4)
                    | None \<Rightarrow>
                        let (a, w5) = new_source \<lparr>src_Type = ''image'', Alias = Image d1,
                                                   Server = imageServer,
                                                   Protocol = ''simplestreams''\<rparr> w4
                        in (Inr a, d1, w5))))))"

definition getNetwork :: "env \<Rightarrow> Driver \<Rightarrow> world \<Rightarrow> (error + addr) \<times> Driver \<times> world" where
  "getNetwork e d w =
     (if Network d = [] then (Inl ''network is required'', d, w)
      else
        (case getClient e d w of
          (Inl err, d1, w1) \<Rightarrow> (Inl err, d1, w1)
        | (Inr client, d1, w1) \<Rightarrow>
            let w2 = emit (CallGetNetwork (Network d1)) w1 in
            (case GetNetwork e client (Network d1) of
              Inl err \<Rightarrow> (Inl (''network '' @ Network d1 @ '' not found: '' @ err), d1, w2)
            | Inr network \<Rightarrow>
                if net_Type network \<notin> set [''bridge'', ''ovn'']
                then (Inl (''network type '' @ net_Type network @ '' not supported''), d1, w2)
                else if net_Type network = ''bridge''
                then
                  let (a, w3) = new_map [''name'' \<mapsto> Network d1, ''type'' \<mapsto> ''nic'',
                                         ''nictype'' \<mapsto> ''bridged'',
                                         ''parent'' \<mapsto> Network d1] w2
                  in (Inr a, d1, w3)
                else
                  let d2 = d1\<lparr>isOVN := True\<rparr>;
                      (a, w3) = new_map [''name'' \<mapsto> ''eth0'', ''type'' \<mapsto> ''nic'',
                                         ''network'' \<mapsto> Network d2] w2
                  in (Inr a, d2, w3))))"

definition getStorage :: "env \<Rightarrow> Driver \<Rightarrow> world \<Rightarrow> (error + addr) \<times> Driver \<times> world" where
  "getStorage e d w =
     (if Storage d = [] then (Inl ''storage is required'', d, w)
      else
        (case getClient e d w of
          (Inl err, d1, w1) \<Rightarrow> (Inl err, d1, w1)
        | (Inr client, d1, w1) \<Rightarrow>
            let w2 = emit (CallGetStoragePool (Storage d1)) w1 in
            (case GetStoragePool e client (Storage d1) of
              Some err \<Rightarrow> (Inl (''storage '' @ Storage d1 @ '' not found: '' @ err), d1, w2)
            | None \<Rightarrow>
                let (a, w3) = new_map [''type'' \<mapsto> ''disk'', ''path'' \<mapsto> ''/'',
                                       ''pool'' \<mapsto> Storage d1,
                                       ''size'' \<mapsto> Sprintf_d (DiskSize d1) @ ''MiB''] w2
                in (Inr a, d1, w3))))"

text \<open>
  \<^verbatim>\<open>d.imgConfig, err = d.getImage()\<close> assigns the field also when the call fails, and
  then assigns \<^verbatim>\<open>nil\<close>.
\<close>

definition PreCreateCheck :: "env \<Rightarrow> Driver \<Rightarrow> world \<Rightarrow> error option \<times> Driver \<times> world" where
  "PreCreateCheck e d w =
     (case getClient e d w of
        (Inl err, d1, w1) \<Rightarrow> (Some err, d1, w1)
      | (Inr client, d1, w1) \<Rightarrow>
          let w2 = emit (CallGetProfile (Profile d1)) w1 in
          (case GetProfile e client (Profile d1) of
            Some err \<Rightarrow> (Some (''profile '' @ Profile d1 @ '' not found: '' @ err), d1, w2)
          | None \<Rightarrow>
              (case getImage e d1 w2 of
                (Inl err, d2, w3) \<Rightarrow> (Some err, d2\<lparr>imgConfig := None\<rparr>, w3)
              | (Inr img, d2, w3) \<Rightarrow>
                  (case getNetwork e (d2\<lparr>imgConfig := Some img\<rparr>) w3 of
                    (Inl err, d3, w4) \<Rightarrow> (Some err, d3\<lparr>netConfig := None\<rparr>, w4)
                  | (Inr net, d3, w4) \<Rightarrow>
                      (case getStorage e (d3\<lparr>netConfig := Some net\<rparr>) w4 of
                        (Inl err, d4, w5) \<Rightarrow> (Some err, d4\<lparr>diskConfig := None\<rparr>, w5)
                      | (Inr disk, d4, w5) \<Rightarrow>
                          (case getResource (d4\<lparr>diskConfig := Some disk\<rparr>) w5 of
                            (Inl err, w6) \<Rightarrow>
                              (Some err, d4\<lparr>diskConfig := Some disk, rsrcConfig := None\<rparr>, w6)
                          | (Inr rsrc, w6) \<Rightarrow>
                              (None, d4\<lparr>diskConfig := Some disk, rsrcConfig := Some rsrc\<rparr>, w6)))))))"

section \<open>The lifecycle operations\<close>



text \<open>
  \<^verbatim>\<open>Start\<close>, \<^verbatim>\<open>Stop\<close>, \<^verbatim>\<open>Kill\<close> and \<^verbatim>\<open>Restart\<close> have one body up to the state they
  request; the source writes it out four times, and so does the model.
\<close>

definition Kill :: "env \<Rightarrow> Driver \<Rightarrow> world \<Rightarrow> error option \<times> Driver \<times> world" where
  "Kill e d w =
     (case getClient e d w of
        (Inl err, d1, w1) \<Rightarrow> (Some err, d1, w1)
      | (Inr client, d1, w1) \<Rightarrow>
          let state = \<lparr>Action = ''stop'', Force = True\<rparr>;
              w2 = emit (CallUpdateInstanceState (MachineName d1) (Action state) (Force state)) w1
          in
          (case UpdateInstanceState e client (MachineName d1) state of
            Inl err \<Rightarrow> (Some err, d1, w2)
          | Inr op \<Rightarrow> (Wait op, d1, emit CallWait w2)))"

definition Stop :: "env \<Rightarrow> Driver \<Rightarrow> world \<Rightarrow> error option \<times> Driver \<times> world" where
  "Stop e d w =
     (case getClient e d w of
        (Inl err, d1, w1) \<Rightarrow> (Some err, d1, w1)
      | (Inr client, d1, w1) \<Rightarrow>
          let state = \<lparr>Action = ''stop'', Force = False\<rparr>;
              w2 = emit (CallUpdateInstanceState (MachineName d1) (Action state) (Force state)) w1
          in
          (case UpdateInstanceState e client (MachineName d1) state of
            Inl err \<Rightarrow> (Some err, d1, w2)
          | Inr op \<Rightarrow> (Wait op, d1, emit CallWait w2)))"

definition Start_op :: "env \<Rightarrow> Driver \<Rightarrow> world \<Rightarrow> error option \<times> Driver \<times> world" where
  "Start_op e d w =
     (case getClient e d w of
        (Inl err, d1, w1) \<Rightarrow> (Some err, d1, w1)
      | (Inr client, d1, w1) \<Rightarrow>
          let state = \<lparr>Action = ''start'', Force = False\<rparr>;
              w2 = emit (CallUpdateInstanceState (MachineName d1) (Action state) (Force state)) w1
          in
          (case UpdateInstanceState e client (MachineName d1) state of
            Inl err \<Rightarrow> (Some err, d1, w2)
          | Inr op \<Rightarrow> (Wait op, d1, emit CallWait w2)))"

definition Restart :: "env \<Rightarrow> Driver \<Rightarrow> world \<Rightarrow> error option \<times> Driver \<times> world" where
  "Restart e d w =
     (case getClient e d w of
        (Inl err, d1, w1) \<Rightarrow> (Some err, d1, w1)
      | (Inr client, d1, w1) \<Rightarrow>
          let state = \<lparr>Action = ''restart'', Force = False\<rparr>;
              w2 = emit (CallUpdateInstanceState (MachineName d1) (Action state) (Force state)) w1
          in
          (case UpdateInstanceState e client (MachineName d1) state of
            Inl err \<Rightarrow> (Some err, d1, w2)
          | Inr op \<Rightarrow> (Wait op, d1, emit CallWait w2)))"

text \<open>\<^verbatim>\<open>d.Kill()\<close> is called as a statement: what it returns is dropped.\<close>

definition Remove :: "env \<Rightarrow> Driver \<Rightarrow> world \<Rightarrow> error option \<times> Driver \<times> world" where
  "Remove e d w =
     (case Kill e d w of
        (killed, d0, w0) \<Rightarrow>
          (case getClient e d0 w0 of
            (Inl err, d1, w1) \<Rightarrow> (Some err, d1, w1)
          | (Inr client, d1, w1) \<Rightarrow>
              let w2 = emit (CallDeleteInstance (MachineName d1)) w1 in
              (case DeleteInstance e client (MachineName d1) of
                Inl err \<Rightarrow> (Some err, d1, w2)
              | Inr op \<Rightarrow> (Wait op, d1, emit CallWait w2))))"

section \<open>The queries\<close>

definition DriverName :: "Driver \<Rightarrow> string" where
  "DriverName d = driverName"

text \<open>\<^verbatim>\<open>BaseDriver.GetIP\<close> of libmachine.\<close>

definition GetIP :: "Driver \<Rightarrow> error + string" where
  "GetIP d = (if IPAddress d = [] then Inl ''IP address is not set'' else Inr (IPAddress d))"

definition GetSSHHostname :: "Driver \<Rightarrow> error + string" where
  "GetSSHHostname d = GetIP d"



text \<open>\<^verbatim>\<open>state.State\<close> of libmachine.\<close>

datatype State =
    State_None | State_Running | State_Paused | State_Saved | State_Stopped
  | State_Stopping | State_Starting | State_Error | State_Timeout





definition Upgrade :: "Driver \<Rightarrow> error option" where
  "Upgrade d = Some ''upgrade is not supported for incus driver at this moment''"

section \<open>Configuration from the flags\<close>

text \<open>\<^verbatim>\<open>mcnflag.StringFlag\<close> and \<^verbatim>\<open>mcnflag.IntFlag\<close>: variable, name, usage, value.\<close>

datatype Flag =
    StringFlag string string string string
  | IntFlag string string string int

definition GetCreateFlags :: "Driver \<Rightarrow> Flag list" where
  "GetCreateFlags d =
     [StringFlag ''INCUS_URL'' ''incus-url''
        ''Incus Server URL (ex: https://incus.example.com:8443)'' [],
      StringFlag ''INCUS_TLS_CLIENT_CERT'' ''incus-tls-client-cert'' ''TLS client certificate'' [],
      StringFlag ''INCUS_TLS_CLIENT_KEY'' ''incus-tls-client-key'' ''TLS client key'' [],
      IntFlag ''INCUS_CPU_COUNT'' ''incus-cpu-count'' ''Incus CPU number for VM'' defaultCpus,
      IntFlag ''INCUS_MEMORY_SIZE'' ''incus-memory-size''
        ''Incus size of memory for VM (in MiB)'' defaultMemory,
      IntFlag ''INCUS_DISK_SIZE'' ''incus-disk-size''
        ''Incus size of disk for VM (in MiB)'' defaultDiskSize,
      StringFlag ''INCUS_PROJECT'' ''incus-project'' ''Incus project name'' defaultProject,
      StringFlag ''INCUS_PROFILE'' ''incus-profile'' ''Incus profile name'' defaultProfile,
      StringFlag ''INCUS_NETWORK_NAME'' ''incus-network-name'' ''Incus network name''
        defaultNetwork,
      StringFlag ''INCUS_STORAGE_NAME'' ''incus-storage-name'' ''Incus storage name''
        defaultStorage,
      StringFlag ''INCUS_IMAGE_NAME'' ''incus-image-name'' ''Incus image name (alias)'' [],
      StringFlag ''INCUS_CLOUDINIT_USERDATA'' ''incus-cloudinit-userdata''
        ''Incus cloud-init.user-data'' [],
      IntFlag ''INCUS_SSH_PORT'' ''incus-ssh-port'' ''Incus Instance SSH Port'' defaultSSHPort,
      StringFlag ''INCUS_SSH_USER'' ''incus-ssh-user''
        ''Specifies the user as which docker-machine should log in to the Incus instance to install Docker.''
        defaultSSHUser]"


text \<open>
  \<^verbatim>\<open>drivers.DriverOptions\<close>: the accessors of the host tool's flag set, by flag name.
\<close>

record DriverOptions =
  flag_String :: "string \<Rightarrow> string"
  flag_Int :: "string \<Rightarrow> int"
  flag_Bool :: "string \<Rightarrow> bool"

text \<open>\<^verbatim>\<open>BaseDriver.SetSwarmConfigFromFlags\<close> of libmachine; it returns nothing.\<close>

definition SetSwarmConfigFromFlags :: "DriverOptions \<Rightarrow> Driver \<Rightarrow> Driver" where
  "SetSwarmConfigFromFlags flags d =
     d\<lparr>SwarmMaster := flag_Bool flags ''swarm-master'',
       SwarmHost := flag_String flags ''swarm-host'',
       SwarmDiscovery := flag_String flags ''swarm-discovery''\<rparr>"

definition SetConfigFromFlags :: "DriverOptions \<Rightarrow> Driver \<Rightarrow> error option \<times> Driver" where
  "SetConfigFromFlags flags d =
     (let d1 = d\<lparr>URL := flag_String flags ''incus-url'',
                  TLSClientCert := flag_String flags ''incus-tls-client-cert'',
                  TLSClientKey := flag_String flags ''incus-tls-client-key'',
                  CPU := flag_Int flags ''incus-cpu-count'',
                  Memory := flag_Int flags ''incus-memory-size'',
                  DiskSize := flag_Int flags ''incus-disk-size'',
                  Project := flag_String flags ''incus-project'',
                  Profile := flag_String flags ''incus-profile'',
                  Network := flag_String flags ''incus-network-name'',
                  Storage := flag_String flags ''incus-storage-name'',
                  Image := flag_String flags ''incus-image-name'',
                  SSHPort := flag_Int flags ''incus-ssh-port'',
                  SSHUser := flag_String flags ''incus-ssh-user'',
                  CloudInitUserData := flag_String flags ''incus-cloudinit-userdata''\<rparr>
      in (None, SetSwarmConfigFromFlags flags d1))"


section \<open>Notions used in the statements\<close>





text \<open>An address that the loop accepts: family IPv4 and scope other than local.\<close>

definition qualifying :: "InstanceStateNetworkAddress \<Rightarrow> bool" where
  "qualifying addr = (Family addr = ''inet'' \<and> Scope addr \<noteq> ''local'')"

text \<open>All addresses of a response, in the order in which the two loops visit them.\<close>

definition addresses_of :: "InstanceState \<Rightarrow> InstanceStateNetworkAddress list" where
  "addresses_of state = concat (map (\<lambda>(name, net). Addresses net) (st_Network state))"

text \<open>A response contains a qualifying address.\<close>

definition has_address :: "error + InstanceState \<Rightarrow> bool" where
  "has_address r =
     (case r of Inl err \<Rightarrow> False
      | Inr state \<Rightarrow> find qualifying (addresses_of state) \<noteq> None)"

text \<open>
  A response after which the loop goes on waiting: the query succeeded, the status is
  not a terminal one, and there is no qualifying address.
\<close>

definition waiting :: "error + InstanceState \<Rightarrow> bool" where
  "waiting r =
     (case r of Inl err \<Rightarrow> False
      | Inr state \<Rightarrow> StatusCode state \<notin> set terminal_statuses
                     \<and> find qualifying (addresses_of state) = None)"

text \<open>The calls of \<open>k\<close> rounds of the loop that found nothing: a query, then a sleep.\<close>

definition poll_calls :: "string \<Rightarrow> nat \<Rightarrow> call list" where
  "poll_calls name k = concat (replicate k [CallGetInstanceState name, CallSleep 5])"

text \<open>
  The handle that \<open>getClient\<close> yields when it succeeds, and the condition under which it
  does: a handle is cached, or the connection attempted now and the project lookup that
  follows it both succeed.
\<close>

definition handle_of :: "Driver \<Rightarrow> InstanceServer" where
  "handle_of d = (case incus d of Some client \<Rightarrow> client | None \<Rightarrow> UseProject (Project d))"

definition connected :: "env \<Rightarrow> Driver \<Rightarrow> world \<Rightarrow> bool" where
  "connected e d w =
     (incus d \<noteq> None \<or>
      (ConnectIncus e (connects w) (URL d) (TLSClientCert d) (TLSClientKey d) = None
       \<and> GetProject e (connects w) (Project d) = None))"

text \<open>The value of a number written in decimal digits.\<close>

definition digit_value :: "char \<Rightarrow> nat" where
  "digit_value c = of_char c - 48"

definition decimal_value :: "string \<Rightarrow> nat" where
  "decimal_value s = foldl (\<lambda>acc c. 10 * acc + digit_value c) 0 s"

text \<open>The calls that \<open>getClient\<close> makes when it succeeds: none if a handle is cached.\<close>

definition connect_calls :: "Driver \<Rightarrow> call list" where
  "connect_calls d =
     (if incus d = None then [CallConnectIncus (URL d), CallGetProject (Project d)] else [])"

text \<open>The calls made between two worlds.\<close>

definition calls_since :: "world \<Rightarrow> world \<Rightarrow> call list" where
  "calls_since w w' = drop (length (calls w)) (calls w')"

text \<open>A call to the public image index.\<close>

fun is_index_call :: "call \<Rightarrow> bool" where
  "is_index_call (CallConnectSimpleStreams url) = True"
| "is_index_call (CallSimpleStreamsGetImageAlias alias) = True"
| "is_index_call c = False"

text \<open>A delete request.\<close>

fun is_delete :: "call \<Rightarrow> bool" where
  "is_delete (CallDeleteInstance name) = True"
| "is_delete c = False"

section \<open>A laboratory: one server, one machine\<close>

definition lo_addr :: InstanceStateNetworkAddress where
  "lo_addr = \<lparr>Family = ''inet'', Address = ''127.0.0.1'', Netmask = ''8'', Scope = ''local''\<rparr>"

definition v6_addr :: InstanceStateNetworkAddress where
  "v6_addr = \<lparr>Family = ''inet6'', Address = ''fd42::5'', Netmask = ''64'', Scope = ''global''\<rparr>"

definition v4_addr :: InstanceStateNetworkAddress where
  "v4_addr = \<lparr>Family = ''inet'', Address = ''10.0.0.5'', Netmask = ''24'', Scope = ''global''\<rparr>"

definition v4_addr2 :: InstanceStateNetworkAddress where
  "v4_addr2 = \<lparr>Family = ''inet'', Address = ''10.0.0.6'', Netmask = ''24'', Scope = ''global''\<rparr>"

definition booting_state :: InstanceState where
  "booting_state = \<lparr>StatusCode = Running, st_Network = [(''lo'', \<lparr>Addresses = [lo_addr]\<rparr>)]\<rparr>"

definition addressed_state :: InstanceState where
  "addressed_state =
     \<lparr>StatusCode = Running,
      st_Network = [(''lo'', \<lparr>Addresses = [lo_addr]\<rparr>),
                    (''enp5s0'', \<lparr>Addresses = [v6_addr, v4_addr, v4_addr2]\<rparr>)]\<rparr>"

definition frozen_state :: InstanceState where
  "frozen_state =
     \<lparr>StatusCode = Frozen,
      st_Network = [(''enp5s0'', \<lparr>Addresses = [v4_addr]\<rparr>)]\<rparr>"

definition lab :: env where
  "lab =
     \<lparr>SSHKeyPath = ''/store/machines/vm1/id_rsa'',
      GenerateSSHKey = (\<lambda>path. None),
      ReadFile = (\<lambda>path. if path = ''/store/machines/vm1/id_rsa.pub''
                           then Inr ''ssh-rsa AAAA''
                           else if path = ''/home/op/user-data.yaml''
                           then Inr ''#cloud-config''
                           else Inl ''no such file''),
      Sprintf0 = (\<lambda>format. format),
      ConnectIncus = (\<lambda>n url cert key. None),
      GetProject = (\<lambda>n name. None),
      GetProfile = (\<lambda>client name. None),
      GetImageAlias = (\<lambda>client alias. if alias = ''debian/12'' then None else Some ''not found''),
      ConnectSimpleStreams = (\<lambda>url. None),
      SimpleStreams_GetImageAlias =
        (\<lambda>alias. if alias = ''debian/12'' \<or> alias = ''alpine/edge'' then None
                  else Some ''not found''),
      GetNetwork = (\<lambda>client name.
         if name = ''incusbr0'' then Inr \<lparr>net_Type = ''bridge''\<rparr>
         else if name = ''ovn1'' then Inr \<lparr>net_Type = ''ovn''\<rparr>
         else if name = ''mv0'' then Inr \<lparr>net_Type = ''macvlan''\<rparr>
         else Inl ''Network not found''),
      GetStoragePool = (\<lambda>client name. None),
      CreateInstance = (\<lambda>client req. Inr (Operation None)),
      GetInstanceState = (\<lambda>client n name. Inr addressed_state),
      UpdateInstanceState = (\<lambda>client name state. Inr (Operation None)),
      DeleteInstance = (\<lambda>client name. Inr (Operation None))\<rparr>"

definition vm1 :: Driver where
  "vm1 =
     \<lparr>IPAddress = [], MachineName = ''vm1'', SSHUser = [], SwarmMaster = False,
      SwarmHost = [], SwarmDiscovery = [], URL = ''https://incus.example.com:8443'',
      TLSClientCert = ''cert'', TLSClientKey = ''key'', CPU = 1, Memory = 1024,
      DiskSize = 10240, Project = ''default'', Profile = ''default'',
      Network = ''incusbr0'', Storage = ''local'', Image = ''debian/12'',
      CloudInitUserData = [], SSHPort = 22, incus = None, sshPublicKey = [],
      imgConfig = None, netConfig = None, diskConfig = None, rsrcConfig = None,
      isOVN = False\<rparr>"

definition boot :: world where
  "boot = \<lparr>maps = [], sources = [], calls = []\<rparr>"

text \<open>A machine that never gets an address, one that gets it with the third answer,
  one that gets it with answer 102, and one that is frozen at the second answer.\<close>

definition never_env :: env where
  "never_env = lab\<lparr>GetInstanceState := (\<lambda>client n name. Inr booting_state)\<rparr>"

definition third_env :: env where
  "third_env = lab\<lparr>GetInstanceState :=
     (\<lambda>client n name. if n < 2 then Inr booting_state else Inr addressed_state)\<rparr>"

definition late_env :: env where
  "late_env = lab\<lparr>GetInstanceState :=
     (\<lambda>client n name. if n < 101 then Inr booting_state else Inr addressed_state)\<rparr>"

definition frozen_env :: env where
  "frozen_env = lab\<lparr>GetInstanceState :=
     (\<lambda>client n name. if n < 1 then Inr booting_state else Inr frozen_state)\<rparr>"

text \<open>A server on which the machine is stopped already, so that the forced stop fails.\<close>

definition stopped_env :: env where
  "stopped_env = lab\<lparr>UpdateInstanceState :=
     (\<lambda>client name state. Inl ''The instance is already stopped'')\<rparr>"

text \<open>
  A server that refuses the first connection and accepts every later one, and a server
  that refuses every connection.
\<close>

definition flaky_env :: env where
  "flaky_env = lab\<lparr>ConnectIncus :=
     (\<lambda>n url cert key. if n = 0 then Some ''connection refused'' else None)\<rparr>"

definition offline_env :: env where
  "offline_env = lab\<lparr>ConnectIncus := (\<lambda>n url cert key. Some ''connection refused'')\<rparr>"

text \<open>The flags with the defaults of \<^verbatim>\<open>GetCreateFlags\<close>: no image is named.\<close>

definition default_flags :: DriverOptions where
  "default_flags =
     \<lparr>flag_String = (\<lambda>name.
        if name = ''incus-url'' then ''https://incus.example.com:8443''
        else if name = ''incus-project'' then ''default''
        else if name = ''incus-profile'' then ''default''
        else if name = ''incus-network-name'' then ''incusbr0''
        else if name = ''incus-storage-name'' then ''local''
        else if name = ''incus-ssh-user'' then ''root''
        else []),
      flag_Int = (\<lambda>name.
        if name = ''incus-cpu-count'' then 1
        else if name = ''incus-memory-size'' then 1024
        else if name = ''incus-disk-size'' then 10240
        else if name = ''incus-ssh-port'' then 22
        else 0),
      flag_Bool = (\<lambda>name. False)\<rparr>"








section \<open>Facts about the waiting loop\<close>

lemma find_append:
  "find P (xs @ ys) = (case find P xs of Some x \<Rightarrow> Some x | None \<Rightarrow> find P ys)"
  by (induction xs) simp_all

lemma scan_addresses_find: "scan_addresses as = find qualifying as"
  by (induction as) (simp_all add: qualifying_def)

lemma scan_networks_find:
  "scan_networks nets = find qualifying (concat (map (\<lambda>(name, net). Addresses net) nets))"
  by (induction nets rule: scan_networks.induct)
     (simp_all add: scan_addresses_find find_append split: option.splits)

lemma state_queries_emit_query [simp]:
  "state_queries (emit (CallGetInstanceState n) w) = Suc (state_queries w)"
  by (simp add: state_queries_def emit_def)

lemma state_queries_emit_sleep [simp]:
  "state_queries (emit (CallSleep n) w) = state_queries w"
  by (simp add: state_queries_def emit_def)

lemma sleeps_emit_query [simp]:
  "sleeps (emit (CallGetInstanceState n) w) = sleeps w"
  by (simp add: sleeps_def emit_def)

lemma sleeps_emit_sleep [simp]:
  "sleeps (emit (CallSleep n) w) = Suc (sleeps w)"
  by (simp add: sleeps_def emit_def)

lemma poll_calls_Suc:
  "poll_calls n (Suc k) = poll_calls n k @ [CallGetInstanceState n, CallSleep 5]"
  unfolding poll_calls_def by (induction k) simp_all

lemma state_queries_poll_calls [simp]:
  "state_queries (w\<lparr>calls := calls w @ poll_calls n k\<rparr>) = state_queries w + k"
  by (induction k) (simp_all add: state_queries_def poll_calls_def)

lemma sleeps_poll_calls [simp]:
  "sleeps (w\<lparr>calls := calls w @ poll_calls n k\<rparr>) = sleeps w + k"
  by (induction k) (simp_all add: sleeps_def poll_calls_def)

text \<open>One round of the loop on an answer that makes it wait.\<close>

lemma Create_loop_step_waiting:
  assumes "waiting (GetInstanceState e c (state_queries w) (MachineName d))"
  shows "Create_loop e c d w retry =
     (let w2 = emit (CallSleep 5) (emit (CallGetInstanceState (MachineName d)) w) in
      if retry + 1 > maxRetries
      then (Some ''timeout waiting for instance to get IP address'', d, w2)
      else Create_loop e c d w2 (retry + 1))"
proof -
  from assms obtain state where
    st: "GetInstanceState e c (state_queries w) (MachineName d) = Inr state"
    and nt: "StatusCode state \<notin> set terminal_statuses"
    and na: "scan_networks (st_Network state) = None"
    by (cases "GetInstanceState e c (state_queries w) (MachineName d)")
       (auto simp: waiting_def scan_networks_find addresses_of_def)
  show ?thesis
    by (subst Create_loop.simps) (simp add: st nt na Let_def)
qed

text \<open>\<open>k\<close> such rounds in a row, as long as the budget lasts.\<close>

lemma Create_loop_unroll:
  assumes "\<forall>i<k. waiting (GetInstanceState e c (state_queries w + i) (MachineName d))"
    and "retry + k \<le> maxRetries"
  shows "Create_loop e c d w retry =
         Create_loop e c d (w\<lparr>calls := calls w @ poll_calls (MachineName d) k\<rparr>) (retry + k)"
  using assms
proof (induction k arbitrary: w retry)
  case 0
  then show ?case by (simp add: poll_calls_def)
next
  case (Suc k)
  let ?w2 = "emit (CallSleep 5) (emit (CallGetInstanceState (MachineName d)) w)"
  from Suc.prems have w0: "waiting (GetInstanceState e c (state_queries w) (MachineName d))"
    by (metis add.right_neutral zero_less_Suc)
  have later: "\<forall>i<k. waiting (GetInstanceState e c (state_queries ?w2 + i) (MachineName d))"
    using Suc.prems(1) by auto
  have "Create_loop e c d w retry = Create_loop e c d ?w2 (retry + 1)"
    using Suc.prems(2) by (simp add: Create_loop_step_waiting [OF w0])
  also have "\<dots> = Create_loop e c d (?w2\<lparr>calls := calls ?w2 @ poll_calls (MachineName d) k\<rparr>) (retry + 1 + k)"
    using Suc.prems(2) by (intro Suc.IH [OF later]) simp
  also have "?w2\<lparr>calls := calls ?w2 @ poll_calls (MachineName d) k\<rparr>
             = w\<lparr>calls := calls w @ poll_calls (MachineName d) (Suc k)\<rparr>"
    by (simp add: emit_def poll_calls_def)
  finally show ?case by simp
qed

lemma Create_loop_bound:
  "retry \<le> maxRetries \<Longrightarrow>
   state_queries (snd (snd (Create_loop e c d w retry))) + retry \<le> state_queries w + maxRetries + 1
   \<and> sleeps (snd (snd (Create_loop e c d w retry))) + retry \<le> sleeps w + maxRetries + 1"
proof (induction e c d w retry rule: Create_loop.induct)
  case (1 e client d w retry)
  show ?case
  proof (cases "GetInstanceState e client (state_queries w) (MachineName d)")
    case (Inl err)
    then show ?thesis using "1.prems"
      by (subst Create_loop.simps, subst (2) Create_loop.simps) (simp add: Let_def)
  next
    case (Inr state)
    show ?thesis
    proof (cases "StatusCode state \<in> set terminal_statuses")
      case True
      then show ?thesis using Inr "1.prems"
        by (subst Create_loop.simps, subst (2) Create_loop.simps) (simp add: Let_def)
    next
      case nt: False
      show ?thesis
      proof (cases "scan_networks (st_Network state)")
        case (Some addr)
        then show ?thesis using Inr nt "1.prems"
          by (subst Create_loop.simps, subst (2) Create_loop.simps) (simp add: Let_def)
      next
        case None
        show ?thesis
        proof (cases "retry + 1 > maxRetries")
          case True
          then show ?thesis using Inr nt None "1.prems"
            by (subst Create_loop.simps, subst (2) Create_loop.simps) (simp add: Let_def)
        next
          case False
          let ?w2 = "emit (CallSleep 5) (emit (CallGetInstanceState (MachineName d)) w)"
          have step: "Create_loop e client d w retry = Create_loop e client d ?w2 (retry + 1)"
            using Inr nt None False by (subst Create_loop.simps) (simp add: Let_def)
          have "retry + 1 \<le> maxRetries" using False by simp
          from "1.IH" [OF refl Inr nt None refl False this]
          show ?thesis unfolding step by simp
        qed
      qed
    qed
  qed
qed

lemma Create_loop_no_address:
  "\<forall>n. \<not> has_address (GetInstanceState e c n (MachineName d)) \<Longrightarrow>
   fst (Create_loop e c d w retry) \<noteq> None \<and> fst (snd (Create_loop e c d w retry)) = d"
proof (induction e c d w retry rule: Create_loop.induct)
  case (1 e client d w retry)
  show ?case
  proof (cases "GetInstanceState e client (state_queries w) (MachineName d)")
    case (Inl err)
    then show ?thesis
      by (subst Create_loop.simps, subst (2) Create_loop.simps) (simp add: Let_def)
  next
    case (Inr state)
    from "1.prems" [rule_format, of "state_queries w"] Inr
    have None: "scan_networks (st_Network state) = None"
      by (simp add: has_address_def scan_networks_find addresses_of_def)
    show ?thesis
    proof (cases "StatusCode state \<in> set terminal_statuses")
      case True
      then show ?thesis using Inr
        by (subst Create_loop.simps, subst (2) Create_loop.simps) (simp add: Let_def)
    next
      case nt: False
      show ?thesis
      proof (cases "retry + 1 > maxRetries")
        case True
        then show ?thesis using Inr nt None
          by (subst Create_loop.simps, subst (2) Create_loop.simps) (simp add: Let_def)
      next
        case False
        let ?w2 = "emit (CallSleep 5) (emit (CallGetInstanceState (MachineName d)) w)"
        have step: "Create_loop e client d w retry = Create_loop e client d ?w2 (retry + 1)"
          using Inr nt None False by (subst Create_loop.simps) (simp add: Let_def)
        from "1.IH" [OF refl Inr nt None refl False "1.prems"]
        show ?thesis unfolding step by simp
      qed
    qed
  qed
qed

lemma Create_loop_timeout:
  assumes "\<forall>i\<le>maxRetries. waiting (GetInstanceState e c (state_queries w + i) (MachineName d))"
  shows "Create_loop e c d w 0 =
     (Some ''timeout waiting for instance to get IP address'', d,
      w\<lparr>calls := calls w @ poll_calls (MachineName d) (Suc maxRetries)\<rparr>)"
proof -
  let ?w = "w\<lparr>calls := calls w @ poll_calls (MachineName d) maxRetries\<rparr>"
  have "Create_loop e c d w 0 = Create_loop e c d ?w (0 + maxRetries)"
    using assms by (intro Create_loop_unroll) simp_all
  moreover have "waiting (GetInstanceState e c (state_queries ?w) (MachineName d))"
    using assms by simp
  ultimately have "Create_loop e c d w 0 =
      (Some ''timeout waiting for instance to get IP address'', d,
       emit (CallSleep 5) (emit (CallGetInstanceState (MachineName d)) ?w))"
    by (simp only: Create_loop_step_waiting Let_def) simp
  then show ?thesis
    by (simp add: emit_def poll_calls_Suc)
qed

lemma Create_loop_found:
  assumes "\<forall>i<k. waiting (GetInstanceState e c (state_queries w + i) (MachineName d))"
    and "retry + k \<le> maxRetries"
    and "GetInstanceState e c (state_queries w + k) (MachineName d) = Inr state"
    and "StatusCode state \<notin> set terminal_statuses"
    and "find qualifying (addresses_of state) = Some addr"
  shows "Create_loop e c d w retry =
     (None, d\<lparr>IPAddress := Address addr\<rparr>,
      w\<lparr>calls := calls w @ poll_calls (MachineName d) k @ [CallGetInstanceState (MachineName d)]\<rparr>)"
proof -
  let ?w = "w\<lparr>calls := calls w @ poll_calls (MachineName d) k\<rparr>"
  have "Create_loop e c d w retry = Create_loop e c d ?w (retry + k)"
    using assms(1,2) by (rule Create_loop_unroll)
  also have "\<dots> = (None, d\<lparr>IPAddress := Address addr\<rparr>, emit (CallGetInstanceState (MachineName d)) ?w)"
    using assms(3,4,5)
    by (subst Create_loop.simps) (simp add: Let_def scan_networks_find addresses_of_def)
  finally show ?thesis by (simp add: emit_def)
qed

lemma Create_loop_terminal:
  assumes "\<forall>i<k. waiting (GetInstanceState e c (state_queries w + i) (MachineName d))"
    and "retry + k \<le> maxRetries"
    and "GetInstanceState e c (state_queries w + k) (MachineName d) = Inr state"
    and "StatusCode state \<in> set terminal_statuses"
  shows "Create_loop e c d w retry =
     (Some (''instance state is '' @ StatusCode_String (StatusCode state)), d,
      w\<lparr>calls := calls w @ poll_calls (MachineName d) k @ [CallGetInstanceState (MachineName d)]\<rparr>)"
proof -
  let ?w = "w\<lparr>calls := calls w @ poll_calls (MachineName d) k\<rparr>"
  have "Create_loop e c d w retry = Create_loop e c d ?w (retry + k)"
    using assms(1,2) by (rule Create_loop_unroll)
  also have "\<dots> = (Some (''instance state is '' @ StatusCode_String (StatusCode state)), d,
       emit (CallGetInstanceState (MachineName d)) ?w)"
    using assms(3,4)
    by (subst Create_loop.simps) (simp add: Let_def)
  finally show ?thesis by (simp add: emit_def)
qed

lemma waiting_booting [simp]: "waiting (Inr booting_state)"
  by (simp add: waiting_def booting_state_def addresses_of_def qualifying_def lo_addr_def
      terminal_statuses_def)

lemma find_addressed [simp]: "find qualifying (addresses_of addressed_state) = Some v4_addr"
  by (simp add: addressed_state_def addresses_of_def qualifying_def lo_addr_def v6_addr_def
      v4_addr_def)

section \<open>The budget of the waiting loop\<close>

text \<open>
  Claim C1, as the code has it. The loop of \<open>Create\<close> issues the first state query and
  then at most \<open>maxRetries = 100\<close> further ones: never more than 101 queries and 101
  sleeps, whatever the server answers. When no answer contains an IPv4 address of
  non-local scope, the loop fails and leaves the driver as it was. When the first 101
  queries all succeed with a status that is not terminal and without such an address, the
  loop makes exactly 101 queries, sleeps after each of them, and fails with the timeout
  error; there is no query 102.
\<close>

theorem Create_loop_budget:
  "state_queries (snd (snd (Create_loop e c d w 0))) \<le> state_queries w + 101
   \<and> sleeps (snd (snd (Create_loop e c d w 0))) \<le> sleeps w + 101
   \<and> ((\<forall>n. \<not> has_address (GetInstanceState e c n (MachineName d))) \<longrightarrow>
        fst (Create_loop e c d w 0) \<noteq> None \<and> fst (snd (Create_loop e c d w 0)) = d)
   \<and> ((\<forall>i\<le>100. waiting (GetInstanceState e c (state_queries w + i) (MachineName d))) \<longrightarrow>
        Create_loop e c d w 0 =
          (Some ''timeout waiting for instance to get IP address'', d,
           w\<lparr>calls := calls w @ poll_calls (MachineName d) 101\<rparr>)
        \<and> state_queries (snd (snd (Create_loop e c d w 0))) = state_queries w + 101
        \<and> sleeps (snd (snd (Create_loop e c d w 0))) = sleeps w + 101)"
proof -
  have S: "Suc maxRetries = 101" by (simp add: maxRetries_def)
  have a: "state_queries (snd (snd (Create_loop e c d w 0))) \<le> state_queries w + 101
      \<and> sleeps (snd (snd (Create_loop e c d w 0))) \<le> sleeps w + 101"
    using Create_loop_bound [of 0 e c d w] by (simp add: maxRetries_def)
  have b: "(\<forall>n. \<not> has_address (GetInstanceState e c n (MachineName d))) \<longrightarrow>
        fst (Create_loop e c d w 0) \<noteq> None \<and> fst (snd (Create_loop e c d w 0)) = d"
    using Create_loop_no_address [of e c d w 0] by blast
  have c: "(\<forall>i\<le>100. waiting (GetInstanceState e c (state_queries w + i) (MachineName d))) \<longrightarrow>
        Create_loop e c d w 0 =
          (Some ''timeout waiting for instance to get IP address'', d,
           w\<lparr>calls := calls w @ poll_calls (MachineName d) 101\<rparr>)
        \<and> state_queries (snd (snd (Create_loop e c d w 0))) = state_queries w + 101
        \<and> sleeps (snd (snd (Create_loop e c d w 0))) = sleeps w + 101"
  proof
    assume "\<forall>i\<le>100. waiting (GetInstanceState e c (state_queries w + i) (MachineName d))"
    then have "\<forall>i\<le>maxRetries. waiting (GetInstanceState e c (state_queries w + i) (MachineName d))"
      by (simp add: maxRetries_def)
    from Create_loop_timeout [OF this] have
      "Create_loop e c d w 0 =
          (Some ''timeout waiting for instance to get IP address'', d,
           w\<lparr>calls := calls w @ poll_calls (MachineName d) 101\<rparr>)"
      by (simp only: S)
    then show "Create_loop e c d w 0 =
          (Some ''timeout waiting for instance to get IP address'', d,
           w\<lparr>calls := calls w @ poll_calls (MachineName d) 101\<rparr>)
        \<and> state_queries (snd (snd (Create_loop e c d w 0))) = state_queries w + 101
        \<and> sleeps (snd (snd (Create_loop e c d w 0))) = sleeps w + 101"
      by simp
  qed
  from a b c show ?thesis by blast
qed

text \<open>The machine that never gets an address: 101 rounds, then the timeout.\<close>

theorem Create_loop_budget_witness:
  "Create_loop never_env (UseProject ''default'') vm1 boot 0 =
     (Some ''timeout waiting for instance to get IP address'', vm1,
      boot\<lparr>calls := poll_calls ''vm1'' 101\<rparr>)"
proof -
  have h: "\<forall>i\<le>100. waiting (GetInstanceState never_env (UseProject ''default'')
             (state_queries boot + i) (MachineName vm1))"
    by (simp add: never_env_def)
  have n: "MachineName vm1 = ''vm1''" by (simp add: vm1_def)
  have s: "sleeps boot = 0" "calls boot = []" by (simp_all add: sleeps_def boot_def)
  note t = Create_loop_budget [of never_env "UseProject ''default''" vm1 boot,
      THEN conjunct2, THEN conjunct2, THEN conjunct2, THEN mp, OF h]
  from t [THEN conjunct1] show ?thesis by (simp add: n s)
qed

text \<open>
  The same machine refutes the bound of 100 queries: the loop issues query 101 before it
  gives up.
\<close>

theorem Create_loop_101st_query:
  "state_queries (snd (snd (Create_loop never_env (UseProject ''default'') vm1 boot 0))) = 101
   \<and> fst (Create_loop never_env (UseProject ''default'') vm1 boot 0)
       = Some ''timeout waiting for instance to get IP address''"
proof -
  have h: "\<forall>i\<le>maxRetries. waiting (GetInstanceState never_env (UseProject ''default'')
             (state_queries boot + i) (MachineName vm1))"
    by (simp add: never_env_def)
  have s: "state_queries boot = 0" by (simp add: state_queries_def boot_def)
  show ?thesis
    by (simp add: Create_loop_timeout [OF h] s maxRetries_def)
qed

section \<open>The first address wins\<close>

text \<open>
  Claim C3, as the code has it. Let the first \<open>k\<close> queries, with \<open>k\<close> at most 100, succeed
  with a status that is not terminal and without an IPv4 address of non-local scope, and
  let query \<open>k + 1\<close> succeed with a status that is not terminal and with such an address.
  Then the loop of \<open>Create\<close> issues exactly \<open>k + 1\<close> state queries and sleeps exactly \<open>k\<close>
  times, stores in \<open>IPAddress\<close> the first such address of that answer, in the order in
  which the answer is scanned, and returns \<open>nil\<close> at once: the last call is the query
  that found the address, so nothing is stored after it.
\<close>

theorem Create_loop_first_address:
  assumes "k \<le> 100"
    and "\<forall>i<k. waiting (GetInstanceState e c (state_queries w + i) (MachineName d))"
    and "GetInstanceState e c (state_queries w + k) (MachineName d) = Inr state"
    and "StatusCode state \<notin> {Aborting, Freezing, Frozen, Thawed, Error, Failure, Cancelled}"
    and "find qualifying (addresses_of state) = Some addr"
  shows "Create_loop e c d w 0 =
           (None, d\<lparr>IPAddress := Address addr\<rparr>,
            w\<lparr>calls := calls w @ poll_calls (MachineName d) k
                             @ [CallGetInstanceState (MachineName d)]\<rparr>)
         \<and> state_queries (snd (snd (Create_loop e c d w 0))) = state_queries w + k + 1
         \<and> sleeps (snd (snd (Create_loop e c d w 0))) = sleeps w + k"
proof -
  have nt: "StatusCode state \<notin> set terminal_statuses"
    using assms(4) by (simp add: terminal_statuses_def)
  have b: "0 + k \<le> maxRetries" using assms(1) by (simp add: maxRetries_def)
  have r: "Create_loop e c d w 0 =
           (None, d\<lparr>IPAddress := Address addr\<rparr>,
            w\<lparr>calls := calls w @ poll_calls (MachineName d) k
                             @ [CallGetInstanceState (MachineName d)]\<rparr>)"
    by (rule Create_loop_found [OF assms(2) b assms(3) nt assms(5)])
  have q: "state_queries (w\<lparr>calls := calls w @ poll_calls (MachineName d) k
                             @ [CallGetInstanceState (MachineName d)]\<rparr>) = state_queries w + k + 1"
    using state_queries_poll_calls [of w "MachineName d" k]
    by (simp add: state_queries_def)
  have s: "sleeps (w\<lparr>calls := calls w @ poll_calls (MachineName d) k
                             @ [CallGetInstanceState (MachineName d)]\<rparr>) = sleeps w + k"
    using sleeps_poll_calls [of w "MachineName d" k]
    by (simp add: sleeps_def)
  show ?thesis unfolding r using q s by simp
qed

text \<open>
  The machine that gets its addresses with the third answer: three queries, two sleeps,
  and of the two IPv4 addresses of global scope the first one is kept.
\<close>

theorem Create_loop_first_address_witness:
  "Create_loop third_env (UseProject ''default'') vm1 boot 0 =
     (None, vm1\<lparr>IPAddress := ''10.0.0.5''\<rparr>,
      boot\<lparr>calls := [CallGetInstanceState ''vm1'', CallSleep 5,
                       CallGetInstanceState ''vm1'', CallSleep 5,
                       CallGetInstanceState ''vm1'']\<rparr>)"
proof -
  have k: "(2::nat) \<le> 100" by simp
  have q: "state_queries boot = 0" by (simp add: state_queries_def boot_def)
  have h: "\<forall>i<2. waiting (GetInstanceState third_env (UseProject ''default'')
             (state_queries boot + i) (MachineName vm1))"
    by (simp add: third_env_def q)
  have a: "GetInstanceState third_env (UseProject ''default'') (state_queries boot + 2)
             (MachineName vm1) = Inr addressed_state"
    by (simp add: third_env_def q)
  have nt: "StatusCode addressed_state \<notin> {Aborting, Freezing, Frozen, Thawed, Error, Failure, Cancelled}"
    by (simp add: addressed_state_def)
  have p: "poll_calls ''vm1'' 2 = [CallGetInstanceState ''vm1'', CallSleep 5,
                       CallGetInstanceState ''vm1'', CallSleep 5]"
    by (simp add: poll_calls_def numeral_2_eq_2)
  from Create_loop_first_address [OF k h a nt find_addressed, THEN conjunct1]
  show ?thesis by (simp add: vm1_def boot_def p v4_addr_def)
qed

text \<open>
  Without the bound on \<open>k\<close> the statement fails. The first 101 answers of this machine
  carry no address and answer 102 carries one, but the loop gives up after query 101 and
  stores nothing.
\<close>

theorem Create_loop_late_address:
  "has_address (GetInstanceState late_env (UseProject ''default'') 101 ''vm1'')
   \<and> Create_loop late_env (UseProject ''default'') vm1 boot 0 =
       (Some ''timeout waiting for instance to get IP address'', vm1,
        boot\<lparr>calls := poll_calls ''vm1'' 101\<rparr>)
   \<and> state_queries (boot\<lparr>calls := poll_calls ''vm1'' 101\<rparr>) = 101"
proof -
  have q: "state_queries boot = 0" "calls boot = []" by (simp_all add: state_queries_def boot_def)
  have h: "\<forall>i\<le>maxRetries. waiting (GetInstanceState late_env (UseProject ''default'')
             (state_queries boot + i) (MachineName vm1))"
    by (simp add: late_env_def q maxRetries_def)
  have a: "has_address (GetInstanceState late_env (UseProject ''default'') 101 ''vm1'')"
    by (simp add: late_env_def has_address_def)
  have n: "state_queries (boot\<lparr>calls := poll_calls ''vm1'' 101\<rparr>) = 101"
    using state_queries_poll_calls [of boot "''vm1''" 101] by (simp add: q)
  from Create_loop_timeout [OF h] a n show ?thesis
    by (simp add: q maxRetries_def vm1_def)
qed

section \<open>A terminal status ends the loop at once\<close>

text \<open>
  Claim C4. When an answer to a state query carries one of the statuses Aborting,
  Freezing, Frozen, Thawed, Error, Failure or Cancelled, the loop of \<open>Create\<close> returns in
  that very round the error \<open>instance state is\<close> followed by the name of the status. After
  \<open>k\<close> rounds of waiting its calls are the \<open>k\<close> pairs of query and sleep and then the one
  query that was answered with the terminal status: no sleep and no query follows, the
  driver is left as it was, and this holds in every round the budget allows, the first as
  well as the last.
\<close>

theorem Create_loop_terminal_status:
  assumes "\<forall>i<k. waiting (GetInstanceState e c (state_queries w + i) (MachineName d))"
    and "retry + k \<le> 100"
    and "GetInstanceState e c (state_queries w + k) (MachineName d) = Inr state"
    and "StatusCode state \<in> {Aborting, Freezing, Frozen, Thawed, Error, Failure, Cancelled}"
  shows "Create_loop e c d w retry =
     (Some (''instance state is '' @ StatusCode_String (StatusCode state)), d,
      w\<lparr>calls := calls w @ poll_calls (MachineName d) k
                       @ [CallGetInstanceState (MachineName d)]\<rparr>)"
proof -
  have t: "StatusCode state \<in> set terminal_statuses"
    using assms(4) by (simp add: terminal_statuses_def)
  have b: "retry + k \<le> maxRetries" using assms(2) by (simp add: maxRetries_def)
  show ?thesis by (rule Create_loop_terminal [OF assms(1) b assms(3) t])
qed

text \<open>
  The machine that is frozen at the second answer; that answer even carries an address.
\<close>

theorem Create_loop_terminal_status_witness:
  "Create_loop frozen_env (UseProject ''default'') vm1 boot 0 =
     (Some ''instance state is Frozen'', vm1,
      boot\<lparr>calls := [CallGetInstanceState ''vm1'', CallSleep 5,
                       CallGetInstanceState ''vm1'']\<rparr>)"
proof -
  have q: "state_queries boot = 0" by (simp add: state_queries_def boot_def)
  have h: "\<forall>i<1. waiting (GetInstanceState frozen_env (UseProject ''default'')
             (state_queries boot + i) (MachineName vm1))"
    by (simp add: frozen_env_def q)
  have b: "(0::nat) + 1 \<le> 100" by simp
  have a: "GetInstanceState frozen_env (UseProject ''default'') (state_queries boot + 1)
             (MachineName vm1) = Inr frozen_state"
    by (simp add: frozen_env_def q)
  have t: "StatusCode frozen_state \<in> {Aborting, Freezing, Frozen, Thawed, Error, Failure, Cancelled}"
    by (simp add: frozen_state_def)
  from Create_loop_terminal_status [OF h b a t]
  show ?thesis by (simp add: vm1_def boot_def poll_calls_def frozen_state_def)
qed

section \<open>The resource limits\<close>

lemma digit_value_nth: "m < 10 \<Longrightarrow> digit_value (''0123456789'' ! m) = m"
proof -
  assume "m < 10"
  then have "m = 0 \<or> m = 1 \<or> m = 2 \<or> m = 3 \<or> m = 4 \<or> m = 5 \<or> m = 6
    \<or> m = 7 \<or> m = 8 \<or> m = 9" by arith
  then show ?thesis by (auto simp: digit_value_def)
qed

lemma decimal_value_snoc:
  "decimal_value (s @ [c]) = 10 * decimal_value s + digit_value c"
  by (simp add: decimal_value_def)

lemma decimal_value_digits: "decimal_value (digits n) = n"
proof (induction n rule: digits.induct)
  case (1 n)
  show ?case
  proof (cases "n < 10")
    case True
    then show ?thesis
      by (subst digits.simps) (simp add: digit_value_nth decimal_value_def)
  next
    case False
    have "decimal_value (digits n) = 10 * decimal_value (digits (n div 10)) + n mod 10"
      using False by (subst digits.simps) (simp add: decimal_value_snoc digit_value_nth)
    with "1.IH" [OF False] show ?thesis by simp
  qed
qed

lemma digits_4: "digits 4 = ''4''"
  by (subst digits.simps) simp

lemma digits_2048: "digits 2048 = ''2048''"
  by (simp add: digits.simps)

text \<open>
  Claim C7. \<open>getResource\<close> never fails and reads nothing but the CPU count and the memory
  size of the driver. It returns a new map with exactly the two keys \<open>limits.cpu\<close> and
  \<open>limits.memory\<close>: the first holds the CPU count in decimal digits, the second the
  memory size in decimal digits followed by \<open>MiB\<close>. The digits are those of the number
  (reading them back gives the number, and a negative number gets a minus sign). For 4
  CPUs and 2048 MiB the map is \<open>limits.cpu = 4\<close>, \<open>limits.memory = 2048MiB\<close>.
\<close>

theorem getResource_limits:
  "getResource d w =
     (Inr (length (maps w)),
      w\<lparr>maps := maps w @ [[''limits.cpu'' \<mapsto> Sprintf_d (CPU d),
                              ''limits.memory'' \<mapsto> Sprintf_d (Memory d) @ ''MiB'']]\<rparr>)
   \<and> maps (snd (getResource d w)) ! length (maps w) =
       [''limits.cpu'' \<mapsto> Sprintf_d (CPU d), ''limits.memory'' \<mapsto> Sprintf_d (Memory d) @ ''MiB'']
   \<and> dom (maps (snd (getResource d w)) ! length (maps w)) = {''limits.cpu'', ''limits.memory''}
   \<and> decimal_value (Sprintf_d (int n)) = n
   \<and> Sprintf_d (- int (Suc n)) = ''-'' @ Sprintf_d (int (Suc n))
   \<and> maps (snd (getResource (d\<lparr>CPU := 4, Memory := 2048\<rparr>) w)) ! length (maps w) =
       [''limits.cpu'' \<mapsto> ''4'', ''limits.memory'' \<mapsto> ''2048MiB'']"
proof -
  have r: "getResource d w =
     (Inr (length (maps w)),
      w\<lparr>maps := maps w @ [[''limits.cpu'' \<mapsto> Sprintf_d (CPU d),
                              ''limits.memory'' \<mapsto> Sprintf_d (Memory d) @ ''MiB'']]\<rparr>)" for d
    by (simp add: getResource_def new_map_def)
  have k: "dom [''limits.cpu'' \<mapsto> Sprintf_d (CPU d),
                ''limits.memory'' \<mapsto> Sprintf_d (Memory d) @ ''MiB'']
           = {''limits.cpu'', ''limits.memory''}"
    by auto
  have v: "decimal_value (Sprintf_d (int n)) = n"
    by (simp add: Sprintf_d_def decimal_value_digits)
  have m: "Sprintf_d (- int (Suc n)) = ''-'' @ Sprintf_d (int (Suc n))"
    by (simp add: Sprintf_d_def add.commute)
  have i: "Sprintf_d 4 = ''4''" "Sprintf_d 2048 = ''2048''"
    by (simp_all add: Sprintf_d_def digits_4 digits_2048)
  show ?thesis
    unfolding r using k v m i by simp
qed

section \<open>Facts about the server handle\<close>

lemma getClient_connected:
  "connected e d w \<Longrightarrow>
   getClient e d w =
     (Inr (handle_of d), d\<lparr>incus := Some (handle_of d)\<rparr>,
      w\<lparr>calls := calls w @ connect_calls d\<rparr>)"
  by (cases "incus d")
     (auto simp: connected_def getClient_def handle_of_def connect_calls_def emit_def Let_def)

lemma getClient_not_connected:
  "\<not> connected e d w \<Longrightarrow> \<exists>err w'. getClient e d w = (Inl err, d, w') \<and> maps w' = maps w
      \<and> sources w' = sources w"
  by (cases "incus d")
     (auto simp: connected_def getClient_def emit_def Let_def split: option.splits)

lemma connected_cached [simp]: "connected e (d\<lparr>incus := Some c\<rparr>) w"
  by (simp add: connected_def)

section \<open>Resolution of the network\<close>

text \<open>
  Claim C5. \<open>getNetwork\<close> fails on an empty network name before any call is made. When
  the server answers the lookup of the network with an error, it fails too, and with the
  server handle at hand the error is \<open>network N not found\<close> followed by the server's
  error. When the network exists and its type is neither \<open>bridge\<close> nor \<open>ovn\<close> (the type
  of an overlay network), it fails and returns no descriptor; with the server handle at
  hand the error is \<open>network type T not supported\<close>, no map is allocated and the overlay
  flag is not touched.
\<close>

theorem getNetwork_failures:
  "(Network d = [] \<longrightarrow> getNetwork e d w = (Inl ''network is required'', d, w))
   \<and> (GetNetwork e (handle_of d) (Network d) = Inl err \<longrightarrow>
        (\<exists>msg. fst (getNetwork e d w) = Inl msg)
        \<and> (Network d \<noteq> [] \<and> connected e d w \<longrightarrow>
             getNetwork e d w =
               (Inl (''network '' @ Network d @ '' not found: '' @ err),
                d\<lparr>incus := Some (handle_of d)\<rparr>,
                w\<lparr>calls := calls w @ connect_calls d @ [CallGetNetwork (Network d)]\<rparr>)))
   \<and> (GetNetwork e (handle_of d) (Network d) = Inr network
        \<and> net_Type network \<noteq> ''bridge'' \<and> net_Type network \<noteq> ''ovn'' \<longrightarrow>
        (\<exists>msg. fst (getNetwork e d w) = Inl msg)
        \<and> (Network d \<noteq> [] \<and> connected e d w \<longrightarrow>
             getNetwork e d w =
               (Inl (''network type '' @ net_Type network @ '' not supported''),
                d\<lparr>incus := Some (handle_of d)\<rparr>,
                w\<lparr>calls := calls w @ connect_calls d @ [CallGetNetwork (Network d)]\<rparr>)))"
proof (intro conjI impI)
  assume "Network d = []"
  then show "getNetwork e d w = (Inl ''network is required'', d, w)"
    by (simp add: getNetwork_def)
next
  assume a: "GetNetwork e (handle_of d) (Network d) = Inl err"
  show "\<exists>msg. fst (getNetwork e d w) = Inl msg"
  proof (cases "connected e d w")
    case True
    with a show ?thesis
      by (simp add: getNetwork_def getClient_connected emit_def)
  next
    case False
    from getClient_not_connected [OF this] show ?thesis
      by (auto simp: getNetwork_def)
  qed
next
  assume a: "GetNetwork e (handle_of d) (Network d) = Inl err"
    and b: "Network d \<noteq> [] \<and> connected e d w"
  then show "getNetwork e d w =
               (Inl (''network '' @ Network d @ '' not found: '' @ err),
                d\<lparr>incus := Some (handle_of d)\<rparr>,
                w\<lparr>calls := calls w @ connect_calls d @ [CallGetNetwork (Network d)]\<rparr>)"
    by (simp add: getNetwork_def getClient_connected emit_def)
next
  assume a: "GetNetwork e (handle_of d) (Network d) = Inr network
        \<and> net_Type network \<noteq> ''bridge'' \<and> net_Type network \<noteq> ''ovn''"
  show "\<exists>msg. fst (getNetwork e d w) = Inl msg"
  proof (cases "connected e d w")
    case True
    with a show ?thesis
      by (simp add: getNetwork_def getClient_connected emit_def)
  next
    case False
    from getClient_not_connected [OF this] show ?thesis
      by (auto simp: getNetwork_def)
  qed
next
  assume a: "GetNetwork e (handle_of d) (Network d) = Inr network
        \<and> net_Type network \<noteq> ''bridge'' \<and> net_Type network \<noteq> ''ovn''"
    and b: "Network d \<noteq> [] \<and> connected e d w"
  then show "getNetwork e d w =
               (Inl (''network type '' @ net_Type network @ '' not supported''),
                d\<lparr>incus := Some (handle_of d)\<rparr>,
                w\<lparr>calls := calls w @ connect_calls d @ [CallGetNetwork (Network d)]\<rparr>)"
    by (simp add: getNetwork_def getClient_connected emit_def)
qed

lemma lab_connected [simp]: "connected lab d w"
  by (simp add: connected_def lab_def)

lemma vm1_handle [simp]: "handle_of (vm1\<lparr>Network := n\<rparr>) = UseProject ''default''"
  by (simp add: handle_of_def vm1_def)

text \<open>
  On the laboratory server: an empty name, a name the server does not know, and the
  macvlan network \<open>mv0\<close>.
\<close>

theorem getNetwork_failures_witness:
  "getNetwork lab (vm1\<lparr>Network := []\<rparr>) boot
     = (Inl ''network is required'', vm1\<lparr>Network := []\<rparr>, boot)
   \<and> fst (getNetwork lab (vm1\<lparr>Network := ''nonet''\<rparr>) boot)
     = Inl ''network nonet not found: Network not found''
   \<and> getNetwork lab (vm1\<lparr>Network := ''mv0''\<rparr>) boot
     = (Inl ''network type macvlan not supported'',
        vm1\<lparr>Network := ''mv0'', incus := Some (UseProject ''default'')\<rparr>,
        boot\<lparr>calls := [CallConnectIncus ''https://incus.example.com:8443'',
                         CallGetProject ''default'', CallGetNetwork ''mv0'']\<rparr>)"
proof -
  have h1: "Network (vm1\<lparr>Network := []\<rparr>) = []" by simp
  have h2: "GetNetwork lab (handle_of (vm1\<lparr>Network := ''nonet''\<rparr>))
             (Network (vm1\<lparr>Network := ''nonet''\<rparr>)) = Inl ''Network not found''"
    by (simp add: lab_def)
  have n2: "Network (vm1\<lparr>Network := ''nonet''\<rparr>) \<noteq> [] \<and> connected lab (vm1\<lparr>Network := ''nonet''\<rparr>) boot"
    by simp
  have h3: "GetNetwork lab (handle_of (vm1\<lparr>Network := ''mv0''\<rparr>))
             (Network (vm1\<lparr>Network := ''mv0''\<rparr>)) = Inr \<lparr>net_Type = ''macvlan''\<rparr>
           \<and> net_Type \<lparr>net_Type = ''macvlan''\<rparr> \<noteq> ''bridge''
           \<and> net_Type \<lparr>net_Type = ''macvlan''\<rparr> \<noteq> ''ovn''"
    by (simp add: lab_def)
  have n3: "Network (vm1\<lparr>Network := ''mv0''\<rparr>) \<noteq> [] \<and> connected lab (vm1\<lparr>Network := ''mv0''\<rparr>) boot"
    by simp
  note a = getNetwork_failures [of "vm1\<lparr>Network := []\<rparr>" lab boot, THEN conjunct1, THEN mp, OF h1]
  note b = getNetwork_failures [of "vm1\<lparr>Network := ''nonet''\<rparr>" lab boot "''Network not found''",
      THEN conjunct2, THEN conjunct1, THEN mp, OF h2, THEN conjunct2, THEN mp, OF n2]
  note c = getNetwork_failures [of "vm1\<lparr>Network := ''mv0''\<rparr>" lab boot _ "\<lparr>net_Type = ''macvlan''\<rparr>",
      THEN conjunct2, THEN conjunct2, THEN mp, OF h3, THEN conjunct2, THEN mp, OF n3]
  have cc: "connect_calls (vm1\<lparr>Network := n\<rparr>)
      = [CallConnectIncus ''https://incus.example.com:8443'', CallGetProject ''default'']" for n
    by (simp add: connect_calls_def vm1_def)
  from a b c show ?thesis
    by (simp add: cc) (simp add: boot_def)
qed

text \<open>
  Claim C6. With a network name \<open>N\<close> and the server handle at hand, what \<open>getNetwork\<close>
  returns depends on the type of the network only. For a network of type \<open>bridge\<close> it is
  a new map whose \<open>name\<close> and \<open>parent\<close> are both \<open>N\<close> (a bridged NIC), and the overlay flag
  is left alone. For a network of type \<open>ovn\<close>, the overlay type, the overlay flag becomes
  true and the new map has the interface name \<open>eth0\<close>, whatever \<open>N\<close> is, and names \<open>N\<close>
  as its network.
\<close>

theorem getNetwork_by_type:
  assumes "Network d \<noteq> []"
    and "connected e d w"
    and "GetNetwork e (handle_of d) (Network d) = Inr network"
  shows "(net_Type network = ''bridge'' \<longrightarrow>
            getNetwork e d w =
              (Inr (length (maps w)), d\<lparr>incus := Some (handle_of d)\<rparr>,
               w\<lparr>calls := calls w @ connect_calls d @ [CallGetNetwork (Network d)],
                 maps := maps w @ [[''name'' \<mapsto> Network d, ''type'' \<mapsto> ''nic'',
                                    ''nictype'' \<mapsto> ''bridged'', ''parent'' \<mapsto> Network d]]\<rparr>)
            \<and> (maps (snd (snd (getNetwork e d w))) ! length (maps w)) ''name'' = Some (Network d)
            \<and> (maps (snd (snd (getNetwork e d w))) ! length (maps w)) ''parent'' = Some (Network d)
            \<and> isOVN (fst (snd (getNetwork e d w))) = isOVN d)
       \<and> (net_Type network = ''ovn'' \<longrightarrow>
            getNetwork e d w =
              (Inr (length (maps w)), d\<lparr>incus := Some (handle_of d), isOVN := True\<rparr>,
               w\<lparr>calls := calls w @ connect_calls d @ [CallGetNetwork (Network d)],
                 maps := maps w @ [[''name'' \<mapsto> ''eth0'', ''type'' \<mapsto> ''nic'',
                                    ''network'' \<mapsto> Network d]]\<rparr>)
            \<and> (maps (snd (snd (getNetwork e d w))) ! length (maps w)) ''name'' = Some ''eth0''
            \<and> isOVN (fst (snd (getNetwork e d w))))"
proof (intro conjI impI)
  assume t: "net_Type network = ''bridge''"
  have r: "getNetwork e d w =
              (Inr (length (maps w)), d\<lparr>incus := Some (handle_of d)\<rparr>,
               w\<lparr>calls := calls w @ connect_calls d @ [CallGetNetwork (Network d)],
                 maps := maps w @ [[''name'' \<mapsto> Network d, ''type'' \<mapsto> ''nic'',
                                    ''nictype'' \<mapsto> ''bridged'', ''parent'' \<mapsto> Network d]]\<rparr>)"
    using assms t by (simp add: getNetwork_def getClient_connected emit_def new_map_def)
  show "getNetwork e d w =
              (Inr (length (maps w)), d\<lparr>incus := Some (handle_of d)\<rparr>,
               w\<lparr>calls := calls w @ connect_calls d @ [CallGetNetwork (Network d)],
                 maps := maps w @ [[''name'' \<mapsto> Network d, ''type'' \<mapsto> ''nic'',
                                    ''nictype'' \<mapsto> ''bridged'', ''parent'' \<mapsto> Network d]]\<rparr>)"
    by (rule r)
  show "(maps (snd (snd (getNetwork e d w))) ! length (maps w)) ''name'' = Some (Network d)"
    unfolding r by simp
  show "(maps (snd (snd (getNetwork e d w))) ! length (maps w)) ''parent'' = Some (Network d)"
    unfolding r by simp
  show "isOVN (fst (snd (getNetwork e d w))) = isOVN d"
    unfolding r by simp
next
  assume t: "net_Type network = ''ovn''"
  have r: "getNetwork e d w =
              (Inr (length (maps w)), d\<lparr>incus := Some (handle_of d), isOVN := True\<rparr>,
               w\<lparr>calls := calls w @ connect_calls d @ [CallGetNetwork (Network d)],
                 maps := maps w @ [[''name'' \<mapsto> ''eth0'', ''type'' \<mapsto> ''nic'',
                                    ''network'' \<mapsto> Network d]]\<rparr>)"
    using assms t by (simp add: getNetwork_def getClient_connected emit_def new_map_def)
  show "getNetwork e d w =
              (Inr (length (maps w)), d\<lparr>incus := Some (handle_of d), isOVN := True\<rparr>,
               w\<lparr>calls := calls w @ connect_calls d @ [CallGetNetwork (Network d)],
                 maps := maps w @ [[''name'' \<mapsto> ''eth0'', ''type'' \<mapsto> ''nic'',
                                    ''network'' \<mapsto> Network d]]\<rparr>)"
    by (rule r)
  show "(maps (snd (snd (getNetwork e d w))) ! length (maps w)) ''name'' = Some ''eth0''"
    unfolding r by simp
  show "isOVN (fst (snd (getNetwork e d w)))"
    unfolding r by simp
qed

text \<open>On the laboratory server: the bridge \<open>incusbr0\<close> and the overlay network \<open>ovn1\<close>.\<close>

theorem getNetwork_by_type_witness:
  "getNetwork lab vm1 boot =
     (Inr 0, vm1\<lparr>incus := Some (UseProject ''default'')\<rparr>,
      boot\<lparr>calls := [CallConnectIncus ''https://incus.example.com:8443'',
                       CallGetProject ''default'', CallGetNetwork ''incusbr0''],
           maps := [[''name'' \<mapsto> ''incusbr0'', ''type'' \<mapsto> ''nic'',
                     ''nictype'' \<mapsto> ''bridged'', ''parent'' \<mapsto> ''incusbr0'']]\<rparr>)
   \<and> getNetwork lab (vm1\<lparr>Network := ''ovn1''\<rparr>) boot =
     (Inr 0, vm1\<lparr>Network := ''ovn1'', incus := Some (UseProject ''default''), isOVN := True\<rparr>,
      boot\<lparr>calls := [CallConnectIncus ''https://incus.example.com:8443'',
                       CallGetProject ''default'', CallGetNetwork ''ovn1''],
           maps := [[''name'' \<mapsto> ''eth0'', ''type'' \<mapsto> ''nic'',
                     ''network'' \<mapsto> ''ovn1'']]\<rparr>)"
proof -
  have v: "vm1\<lparr>Network := ''incusbr0''\<rparr> = vm1" by (simp add: vm1_def)
  have b1: "Network (vm1\<lparr>Network := n\<rparr>) \<noteq> []" if "n \<noteq> []" for n using that by simp
  have g1: "GetNetwork lab (handle_of (vm1\<lparr>Network := ''incusbr0''\<rparr>))
             (Network (vm1\<lparr>Network := ''incusbr0''\<rparr>)) = Inr \<lparr>net_Type = ''bridge''\<rparr>"
    by (simp add: lab_def)
  have g2: "GetNetwork lab (handle_of (vm1\<lparr>Network := ''ovn1''\<rparr>))
             (Network (vm1\<lparr>Network := ''ovn1''\<rparr>)) = Inr \<lparr>net_Type = ''ovn''\<rparr>"
    by (simp add: lab_def)
  have cc: "connect_calls (vm1\<lparr>Network := n\<rparr>)
      = [CallConnectIncus ''https://incus.example.com:8443'', CallGetProject ''default'']" for n
    by (simp add: connect_calls_def vm1_def)
  note a = getNetwork_by_type [OF b1 lab_connected g1, THEN conjunct1, THEN mp,
      THEN conjunct1]
  note b = getNetwork_by_type [OF b1 lab_connected g2, THEN conjunct2, THEN mp,
      THEN conjunct1]
  have a': "getNetwork lab (vm1\<lparr>Network := ''incusbr0''\<rparr>) boot =
     (Inr 0, vm1\<lparr>Network := ''incusbr0'', incus := Some (UseProject ''default'')\<rparr>,
      boot\<lparr>calls := [CallConnectIncus ''https://incus.example.com:8443'',
                       CallGetProject ''default'', CallGetNetwork ''incusbr0''],
           maps := [[''name'' \<mapsto> ''incusbr0'', ''type'' \<mapsto> ''nic'',
                     ''nictype'' \<mapsto> ''bridged'', ''parent'' \<mapsto> ''incusbr0'']]\<rparr>)"
    using a by (simp add: cc) (simp add: boot_def)
  have b': "getNetwork lab (vm1\<lparr>Network := ''ovn1''\<rparr>) boot =
     (Inr 0, vm1\<lparr>Network := ''ovn1'', incus := Some (UseProject ''default''), isOVN := True\<rparr>,
      boot\<lparr>calls := [CallConnectIncus ''https://incus.example.com:8443'',
                       CallGetProject ''default'', CallGetNetwork ''ovn1''],
           maps := [[''name'' \<mapsto> ''eth0'', ''type'' \<mapsto> ''nic'',
                     ''network'' \<mapsto> ''ovn1'']]\<rparr>)"
    using b by (simp add: cc) (simp add: boot_def)
  from a' b' show ?thesis by (simp only: v)
qed

section \<open>Resolution of the image\<close>

lemma getClient_calls:
  "\<exists>cs. calls (snd (snd (getClient e d w))) = calls w @ cs \<and> \<not> list_ex is_index_call cs"
  by (cases "incus d")
     (auto simp: getClient_def emit_def Let_def split: option.splits)

lemma calls_since_append [simp]: "calls w' = calls w @ cs \<Longrightarrow> calls_since w w' = cs"
  by (simp add: calls_since_def)

text \<open>
  Claim C9. \<open>getImage\<close> fails on an empty image reference before any call is made.
  Otherwise, with the server handle at hand, it asks the server for the alias first. If
  the server knows the alias, the result is a new source of type \<open>image\<close> with that alias
  and with empty server and protocol, and the calls end with the local lookup: the image
  index is not contacted, whatever it would have answered. A call to the image index is
  made only if the local lookup has failed. If the local lookup fails and the lookup in
  the image index fails as well, the error is \<open>image A not found in image server\<close>.
\<close>

theorem getImage_local_first:
  "(Image d = [] \<longrightarrow> getImage e d w = (Inl ''image is required'', d, w))
   \<and> (Image d \<noteq> [] \<and> connected e d w \<and> GetImageAlias e (handle_of d) (Image d) = None \<longrightarrow>
        getImage e d w =
          (Inr (length (sources w)), d\<lparr>incus := Some (handle_of d)\<rparr>,
           w\<lparr>calls := calls w @ connect_calls d @ [CallGetImageAlias (Image d)],
             sources := sources w @ [\<lparr>src_Type = ''image'', Alias = Image d,
                                        Server = [], Protocol = []\<rparr>]\<rparr>))
   \<and> (list_ex is_index_call (calls_since w (snd (snd (getImage e d w)))) \<longrightarrow>
        GetImageAlias e (handle_of d) (Image d) \<noteq> None)
   \<and> (Image d \<noteq> [] \<and> connected e d w \<and> GetImageAlias e (handle_of d) (Image d) = Some err1
        \<and> ConnectSimpleStreams e imageServer = None
        \<and> SimpleStreams_GetImageAlias e (Image d) = Some err2 \<longrightarrow>
        getImage e d w =
          (Inl (''image '' @ Image d @ '' not found in image server''),
           d\<lparr>incus := Some (handle_of d)\<rparr>,
           w\<lparr>calls := calls w @ connect_calls d @
                 [CallGetImageAlias (Image d), CallConnectSimpleStreams imageServer,
                  CallSimpleStreamsGetImageAlias (Image d)]\<rparr>))"
proof (intro conjI impI)
  assume "Image d = []"
  then show "getImage e d w = (Inl ''image is required'', d, w)"
    by (simp add: getImage_def)
next
  assume "Image d \<noteq> [] \<and> connected e d w \<and> GetImageAlias e (handle_of d) (Image d) = None"
  then show "getImage e d w =
          (Inr (length (sources w)), d\<lparr>incus := Some (handle_of d)\<rparr>,
           w\<lparr>calls := calls w @ connect_calls d @ [CallGetImageAlias (Image d)],
             sources := sources w @ [\<lparr>src_Type = ''image'', Alias = Image d,
                                        Server = [], Protocol = []\<rparr>]\<rparr>)"
    by (simp add: getImage_def getClient_connected emit_def new_source_def)
next
  assume x: "list_ex is_index_call (calls_since w (snd (snd (getImage e d w))))"
  show "GetImageAlias e (handle_of d) (Image d) \<noteq> None"
  proof
    assume loc: "GetImageAlias e (handle_of d) (Image d) = None"
    show False
    proof (cases "Image d = []")
      case True
      with x show False by (simp add: getImage_def calls_since_def)
    next
      case ne: False
      show False
      proof (cases "connected e d w")
        case True
        have "calls (snd (snd (getImage e d w)))
              = calls w @ connect_calls d @ [CallGetImageAlias (Image d)]"
          using ne True loc
          by (simp add: getImage_def getClient_connected emit_def new_source_def)
        from calls_since_append [OF this] x show False
          by (auto simp: connect_calls_def split: if_splits)
      next
        case False
        from getClient_not_connected [OF False] obtain err w'
          where g: "getClient e d w = (Inl err, d, w')" by blast
        from getClient_calls [of e d w] g obtain cs
          where cs: "calls w' = calls w @ cs" "\<not> list_ex is_index_call cs" by auto
        have "snd (snd (getImage e d w)) = w'"
          using ne g by (simp add: getImage_def)
        with x cs show False by simp
      qed
    qed
  qed
next
  assume "Image d \<noteq> [] \<and> connected e d w \<and> GetImageAlias e (handle_of d) (Image d) = Some err1
        \<and> ConnectSimpleStreams e imageServer = None
        \<and> SimpleStreams_GetImageAlias e (Image d) = Some err2"
  then show "getImage e d w =
          (Inl (''image '' @ Image d @ '' not found in image server''),
           d\<lparr>incus := Some (handle_of d)\<rparr>,
           w\<lparr>calls := calls w @ connect_calls d @
                 [CallGetImageAlias (Image d), CallConnectSimpleStreams imageServer,
                  CallSimpleStreamsGetImageAlias (Image d)]\<rparr>)"
    by (simp add: getImage_def getClient_connected emit_def)
qed

text \<open>
  On the laboratory server the alias \<open>debian/12\<close> is known to the server and to the image
  index, \<open>alpine/edge\<close> to the index only, and \<open>plan9\<close> to neither.
\<close>

theorem getImage_local_first_witness:
  "getImage lab (vm1\<lparr>Image := []\<rparr>) boot = (Inl ''image is required'', vm1\<lparr>Image := []\<rparr>, boot)
   \<and> SimpleStreams_GetImageAlias lab ''debian/12'' = None
   \<and> getImage lab (vm1\<lparr>Image := ''debian/12''\<rparr>) boot =
       (Inr 0, vm1\<lparr>Image := ''debian/12'', incus := Some (UseProject ''default'')\<rparr>,
        boot\<lparr>calls := [CallConnectIncus ''https://incus.example.com:8443'',
                         CallGetProject ''default'', CallGetImageAlias ''debian/12''],
             sources := [\<lparr>src_Type = ''image'', Alias = ''debian/12'',
                          Server = [], Protocol = []\<rparr>]\<rparr>)
   \<and> GetImageAlias lab (UseProject ''default'') ''alpine/edge'' \<noteq> None
   \<and> fst (getImage lab (vm1\<lparr>Image := ''plan9''\<rparr>) boot) =
       Inl ''image plan9 not found in image server''"
proof -
  have h: "handle_of (vm1\<lparr>Image := a\<rparr>) = UseProject ''default''" for a
    by (simp add: handle_of_def vm1_def)
  have cc: "connect_calls (vm1\<lparr>Image := a\<rparr>)
      = [CallConnectIncus ''https://incus.example.com:8443'', CallGetProject ''default'']" for a
    by (simp add: connect_calls_def vm1_def)
  have h1: "Image (vm1\<lparr>Image := []\<rparr>) = []" by simp
  have h2: "Image (vm1\<lparr>Image := ''debian/12''\<rparr>) \<noteq> [] \<and> connected lab (vm1\<lparr>Image := ''debian/12''\<rparr>) boot
     \<and> GetImageAlias lab (handle_of (vm1\<lparr>Image := ''debian/12''\<rparr>)) (Image (vm1\<lparr>Image := ''debian/12''\<rparr>)) = None"
    by (simp add: h) (simp add: lab_def)
  have h3: "list_ex is_index_call (calls_since boot (snd (snd (getImage lab (vm1\<lparr>Image := ''alpine/edge''\<rparr>) boot))))"
    by (simp add: getImage_def getClient_def vm1_def lab_def emit_def new_source_def
        calls_since_def boot_def imageServer_def)
  have h4: "Image (vm1\<lparr>Image := ''plan9''\<rparr>) \<noteq> [] \<and> connected lab (vm1\<lparr>Image := ''plan9''\<rparr>) boot
     \<and> GetImageAlias lab (handle_of (vm1\<lparr>Image := ''plan9''\<rparr>)) (Image (vm1\<lparr>Image := ''plan9''\<rparr>)) = Some ''not found''
     \<and> ConnectSimpleStreams lab imageServer = None
     \<and> SimpleStreams_GetImageAlias lab (Image (vm1\<lparr>Image := ''plan9''\<rparr>)) = Some ''not found''"
    by (simp add: h) (simp add: lab_def)
  note a = getImage_local_first [of "vm1\<lparr>Image := []\<rparr>" lab boot, THEN conjunct1, THEN mp, OF h1]
  note b = getImage_local_first [of "vm1\<lparr>Image := ''debian/12''\<rparr>" lab boot,
      THEN conjunct2, THEN conjunct1, THEN mp, OF h2]
  note c = getImage_local_first [of "vm1\<lparr>Image := ''alpine/edge''\<rparr>" lab boot,
      THEN conjunct2, THEN conjunct2, THEN conjunct1, THEN mp, OF h3]
  note d = getImage_local_first [of "vm1\<lparr>Image := ''plan9''\<rparr>" lab boot "''not found''" "''not found''",
      THEN conjunct2, THEN conjunct2, THEN conjunct2, THEN mp, OF h4]
  have r: "SimpleStreams_GetImageAlias lab ''debian/12'' = None" by (simp add: lab_def)
  from a b c d r show ?thesis
    by (simp add: h cc) (simp add: boot_def)
qed

section \<open>Remove\<close>

lemma getClient_env_update [simp]:
  "getClient (e\<lparr>UpdateInstanceState := f\<rparr>) d w = getClient e d w"
  by (cases "incus d") (simp_all add: getClient_def Let_def split: option.splits)

lemma connected_env_update [simp]:
  "connected (e\<lparr>UpdateInstanceState := f\<rparr>) d w = connected e d w"
  by (simp add: connected_def)

lemma connected_connects:
  "connects w' = connects w \<Longrightarrow> connected e d w' = connected e d w"
  by (simp add: connected_def)

lemma getClient_connects:
  "connects w' = connects w \<Longrightarrow>
   fst (getClient e d w') = fst (getClient e d w)
   \<and> fst (snd (getClient e d w')) = fst (snd (getClient e d w))
   \<and> connects (snd (snd (getClient e d w'))) = connects (snd (snd (getClient e d w)))"
  by (cases "incus d")
     (auto simp: getClient_def Let_def emit_def connects_def split: option.splits)

lemma getClient_no_delete:
  "\<exists>cs. calls (snd (snd (getClient e d w))) = calls w @ cs \<and> \<not> list_ex is_delete cs"
  by (cases "incus d")
     (auto simp: getClient_def emit_def Let_def split: option.splits)

lemma handle_of_cached [simp]: "handle_of (d\<lparr>incus := Some c\<rparr>) = c"
  by (simp add: handle_of_def)

lemma connect_calls_cached [simp]: "connect_calls (d\<lparr>incus := Some c\<rparr>) = []"
  by (simp add: connect_calls_def)

text \<open>
  \<open>Kill\<close> in terms of \<open>getClient\<close>: the driver it leaves is the one \<open>getClient\<close> leaves,
  and the calls it adds after those of \<open>getClient\<close> are neither a connection nor a delete
  request.
\<close>

lemma Kill_state:
  "fst (snd (Kill e d w)) = fst (snd (getClient e d w))
   \<and> connects (snd (snd (Kill e d w))) = connects (snd (snd (getClient e d w)))
   \<and> (\<exists>cs. calls (snd (snd (Kill e d w))) = calls (snd (snd (getClient e d w))) @ cs
            \<and> \<not> list_ex is_delete cs)"
proof -
  obtain rc d1 w1 where g: "getClient e d w = (rc, d1, w1)" by (cases "getClient e d w") auto
  show ?thesis
    by (cases rc;
        cases "UpdateInstanceState e (projr rc) (MachineName d1) \<lparr>Action = ''stop'', Force = True\<rparr>")
       (simp_all add: Kill_def g Let_def emit_def connects_def)
qed

lemma Kill_connected:
  "connected e d w \<Longrightarrow>
   Kill e d w =
     (case UpdateInstanceState e (handle_of d) (MachineName d) \<lparr>Action = ''stop'', Force = True\<rparr> of
        Inl err \<Rightarrow>
          (Some err, d\<lparr>incus := Some (handle_of d)\<rparr>,
           w\<lparr>calls := calls w @ connect_calls d @
                 [CallUpdateInstanceState (MachineName d) ''stop'' True]\<rparr>)
      | Inr op \<Rightarrow>
          (Wait op, d\<lparr>incus := Some (handle_of d)\<rparr>,
           w\<lparr>calls := calls w @ connect_calls d @
                 [CallUpdateInstanceState (MachineName d) ''stop'' True, CallWait]\<rparr>))"
  by (simp add: Kill_def getClient_connected emit_def Let_def split: sum.splits)

lemma Kill_env_update:
  "fst (snd (Kill (e\<lparr>UpdateInstanceState := f\<rparr>) d w)) = fst (snd (Kill e d w))
   \<and> connects (snd (snd (Kill (e\<lparr>UpdateInstanceState := f\<rparr>) d w)))
       = connects (snd (snd (Kill e d w)))"
  using Kill_state [of "e\<lparr>UpdateInstanceState := f\<rparr>" d w] Kill_state [of e d w]
  by simp

lemma MachineName_getClient [simp]:
  "MachineName (fst (snd (getClient e d w))) = MachineName d"
  by (cases "incus d") (auto simp: getClient_def Let_def split: option.splits)

lemma MachineName_Kill [simp]: "MachineName (fst (snd (Kill e d w))) = MachineName d"
  using Kill_state [of e d w] by simp

text \<open>\<open>Remove\<close> in terms of the driver and the world that \<open>Kill\<close> leaves.\<close>

lemma Remove_after_Kill:
  assumes "Kill e d w = (killed, d0, w0)"
  shows "connected e d0 w0 \<Longrightarrow>
         Remove e d w =
           (case DeleteInstance e (handle_of d0) (MachineName d) of
              Inl err \<Rightarrow>
                (Some err, d0\<lparr>incus := Some (handle_of d0)\<rparr>,
                 w0\<lparr>calls := calls w0 @ connect_calls d0 @ [CallDeleteInstance (MachineName d)]\<rparr>)
            | Inr op \<Rightarrow>
                (Wait op, d0\<lparr>incus := Some (handle_of d0)\<rparr>,
                 w0\<lparr>calls := calls w0 @ connect_calls d0 @
                        [CallDeleteInstance (MachineName d), CallWait]\<rparr>))"
    and "\<not> connected e d0 w0 \<Longrightarrow>
         \<exists>err w1 cs. getClient e d0 w0 = (Inl err, d0, w1) \<and> Remove e d w = (Some err, d0, w1)
            \<and> calls w1 = calls w0 @ cs \<and> \<not> list_ex is_delete cs"
proof -
  have n: "MachineName d0 = MachineName d"
    using MachineName_Kill [of e d w] assms by simp
  show "Remove e d w =
           (case DeleteInstance e (handle_of d0) (MachineName d) of
              Inl err \<Rightarrow>
                (Some err, d0\<lparr>incus := Some (handle_of d0)\<rparr>,
                 w0\<lparr>calls := calls w0 @ connect_calls d0 @ [CallDeleteInstance (MachineName d)]\<rparr>)
            | Inr op \<Rightarrow>
                (Wait op, d0\<lparr>incus := Some (handle_of d0)\<rparr>,
                 w0\<lparr>calls := calls w0 @ connect_calls d0 @
                        [CallDeleteInstance (MachineName d), CallWait]\<rparr>))"
    if "connected e d0 w0"
    using that assms n
    by (simp add: Remove_def getClient_connected emit_def Let_def split: sum.splits)
  show "\<exists>err w1 cs. getClient e d0 w0 = (Inl err, d0, w1) \<and> Remove e d w = (Some err, d0, w1)
            \<and> calls w1 = calls w0 @ cs \<and> \<not> list_ex is_delete cs"
    if "\<not> connected e d0 w0"
  proof -
    from getClient_not_connected [OF that] obtain err w1
      where g: "getClient e d0 w0 = (Inl err, d0, w1)" by blast
    have "\<exists>cs. calls w1 = calls w0 @ cs \<and> \<not> list_ex is_delete cs"
      using getClient_no_delete [of e d0 w0] g by simp
    with g assms show ?thesis by (auto simp: Remove_def)
  qed
qed

text \<open>
  Claim C8, as the code has it. \<open>Remove\<close> runs \<open>Kill\<close> first: its calls begin with those
  of \<open>Kill\<close>, which, once \<open>Kill\<close> has the server handle, are the request to stop the
  machine by force and the wait for it. What \<open>Kill\<close> returns is dropped: \<open>Remove\<close>
  returns the same whatever the server answers to the stop request, and it goes on also
  when \<open>Kill\<close> could not connect. After \<open>Kill\<close>, \<open>Remove\<close> asks for the server handle
  again. If it gets one, it issues the delete request for the machine, waits for the
  operation if the request was accepted, and returns exactly what the delete request or
  the wait returns. If it gets none, it returns the error of the connection or of the
  project lookup and issues no delete request.
\<close>

theorem Remove_ignores_Kill:
  "(\<exists>rest. calls (snd (snd (Remove e d w))) = calls (snd (snd (Kill e d w))) @ rest)
   \<and> fst (Remove (e\<lparr>UpdateInstanceState := f\<rparr>) d w) = fst (Remove e d w)
   \<and> (connected e d w \<longrightarrow>
        calls (snd (snd (Kill e d w))) =
          calls w @ connect_calls d @
          CallUpdateInstanceState (MachineName d) ''stop'' True #
          (case UpdateInstanceState e (handle_of d) (MachineName d)
                  \<lparr>Action = ''stop'', Force = True\<rparr> of
             Inl err \<Rightarrow> [] | Inr op \<Rightarrow> [CallWait]))
   \<and> (case Kill e d w of (killed, d0, w0) \<Rightarrow>
        (connected e d0 w0 \<longrightarrow>
           fst (Remove e d w) =
             (case DeleteInstance e (handle_of d0) (MachineName d) of
                Inl err \<Rightarrow> Some err | Inr op \<Rightarrow> Wait op)
           \<and> calls (snd (snd (Remove e d w))) =
               calls w0 @ connect_calls d0 @
               CallDeleteInstance (MachineName d) #
               (case DeleteInstance e (handle_of d0) (MachineName d) of
                  Inl err \<Rightarrow> [] | Inr op \<Rightarrow> [CallWait]))
        \<and> (\<not> connected e d0 w0 \<longrightarrow>
             (\<exists>err. fst (getClient e d0 w0) = Inl err \<and> fst (Remove e d w) = Some err)
             \<and> \<not> list_ex is_delete (calls_since w (snd (snd (Remove e d w))))))"
proof -
  obtain killed d0 w0 where k: "Kill e d w = (killed, d0, w0)" by (cases "Kill e d w") auto
  note con = Remove_after_Kill(1) [OF k] and off = Remove_after_Kill(2) [OF k]
  have prefix: "\<exists>rest. calls (snd (snd (Remove e d w))) = calls (snd (snd (Kill e d w))) @ rest"
  proof (cases "connected e d0 w0")
    case True
    from con [OF True] k show ?thesis by (auto split: sum.splits)
  next
    case False
    from off [OF False] k show ?thesis by auto
  qed
  have same: "fst (Remove (e\<lparr>UpdateInstanceState := f\<rparr>) d w) = fst (Remove e d w)"
  proof -
    let ?e = "e\<lparr>UpdateInstanceState := f\<rparr>"
    obtain killed' d0' w0' where k': "Kill ?e d w = (killed', d0', w0')"
      by (cases "Kill ?e d w") auto
    from Kill_env_update [where e = e and f = f and d = d and w = w] k k' have eq: "d0' = d0" "connects w0' = connects w0"
      by simp_all
    show ?thesis
    proof (cases "connected e d0 w0")
      case True
      then have "connected ?e d0' w0'" using eq connected_connects [of w0' w0 e d0] by simp
      from Remove_after_Kill(1) [OF k' this] con [OF True] eq show ?thesis
        by (simp split: sum.splits)
    next
      case False
      then have "\<not> connected ?e d0' w0'" using eq connected_connects [of w0' w0 e d0] by simp
      from Remove_after_Kill(2) [OF k' this] off [OF False] eq
        getClient_connects [of w0' w0 e d0] show ?thesis
        by auto
    qed
  qed
  have killc: "calls (snd (snd (Kill e d w))) =
          calls w @ connect_calls d @
          CallUpdateInstanceState (MachineName d) ''stop'' True #
          (case UpdateInstanceState e (handle_of d) (MachineName d)
                  \<lparr>Action = ''stop'', Force = True\<rparr> of
             Inl err \<Rightarrow> [] | Inr op \<Rightarrow> [CallWait])" if "connected e d w"
    by (simp add: Kill_connected [OF that] split: sum.splits)
  have c1: "fst (Remove e d w) =
             (case DeleteInstance e (handle_of d0) (MachineName d) of
                Inl err \<Rightarrow> Some err | Inr op \<Rightarrow> Wait op)
           \<and> calls (snd (snd (Remove e d w))) =
               calls w0 @ connect_calls d0 @
               CallDeleteInstance (MachineName d) #
               (case DeleteInstance e (handle_of d0) (MachineName d) of
                  Inl err \<Rightarrow> [] | Inr op \<Rightarrow> [CallWait])" if "connected e d0 w0"
    using con [OF that] by (simp split: sum.splits)
  have c2: "(\<exists>err. fst (getClient e d0 w0) = Inl err \<and> fst (Remove e d w) = Some err)
             \<and> \<not> list_ex is_delete (calls_since w (snd (snd (Remove e d w))))"
    if n: "\<not> connected e d0 w0"
  proof -
    from off [OF n] obtain err w1 cs where
      r: "getClient e d0 w0 = (Inl err, d0, w1)" "Remove e d w = (Some err, d0, w1)"
      "calls w1 = calls w0 @ cs" "\<not> list_ex is_delete cs" by blast
    obtain ks where ks: "calls w0 = calls (snd (snd (getClient e d w))) @ ks"
      "\<not> list_ex is_delete ks"
      using Kill_state [of e d w] k by auto
    obtain gs where gs: "calls (snd (snd (getClient e d w))) = calls w @ gs"
      "\<not> list_ex is_delete gs"
      using getClient_no_delete [of e d w] by blast
    have "calls w1 = calls w @ (gs @ ks @ cs)" using r(3) ks(1) gs(1) by simp
    then have "calls_since w w1 = gs @ ks @ cs" by (rule calls_since_append)
    with r ks gs show ?thesis by simp
  qed
  from prefix same killc c1 c2 show ?thesis unfolding k by simp
qed

text \<open>
  Three servers. On the first the machine is stopped already: \<open>Kill\<close> fails and
  \<open>Remove\<close> deletes the machine. On the second the first connection is refused and the
  second accepted: \<open>Kill\<close> fails to connect, \<open>Remove\<close> connects and deletes the machine.
  On the third every connection is refused: \<open>Remove\<close> returns that error.
\<close>

theorem Remove_ignores_Kill_witness:
  "fst (Kill stopped_env vm1 boot) = Some ''The instance is already stopped''
   \<and> fst (Remove stopped_env vm1 boot) = None
   \<and> calls (snd (snd (Remove stopped_env vm1 boot))) =
       [CallConnectIncus ''https://incus.example.com:8443'', CallGetProject ''default'',
        CallUpdateInstanceState ''vm1'' ''stop'' True, CallDeleteInstance ''vm1'', CallWait]
   \<and> fst (Kill flaky_env vm1 boot) = Some ''failed to connect to incus: connection refused''
   \<and> fst (Remove flaky_env vm1 boot) = None
   \<and> calls (snd (snd (Remove flaky_env vm1 boot))) =
       [CallConnectIncus ''https://incus.example.com:8443'',
        CallConnectIncus ''https://incus.example.com:8443'', CallGetProject ''default'',
        CallDeleteInstance ''vm1'', CallWait]
   \<and> fst (Remove offline_env vm1 boot)
       = Some ''failed to connect to incus: connection refused''"
proof -
  let ?url = "''https://incus.example.com:8443''"
  have v: "MachineName vm1 = ''vm1''" "incus vm1 = None" "URL vm1 = ?url"
    "Project vm1 = ''default''" "calls boot = []"
    by (simp_all add: vm1_def boot_def)
  have cc: "connect_calls vm1 = [CallConnectIncus ?url, CallGetProject ''default'']"
    by (simp add: connect_calls_def vm1_def)
  have hv: "handle_of vm1 = UseProject ''default''" by (simp add: handle_of_def vm1_def)
  \<comment> \<open>the machine is stopped already\<close>
  have c1: "connected stopped_env vm1 boot"
    by (simp add: connected_def stopped_env_def lab_def)
  have k1: "Kill stopped_env vm1 boot =
      (Some ''The instance is already stopped'', vm1\<lparr>incus := Some (UseProject ''default'')\<rparr>,
       boot\<lparr>calls := [CallConnectIncus ?url, CallGetProject ''default'',
                        CallUpdateInstanceState ''vm1'' ''stop'' True]\<rparr>)"
    by (simp add: Kill_connected [OF c1]) (simp add: stopped_env_def cc hv v)
  have d1: "DeleteInstance stopped_env client name = Inr (Operation None)" for client name
    by (simp add: stopped_env_def lab_def)
  note t1 = Remove_ignores_Kill [of stopped_env vm1 boot, THEN conjunct2, THEN conjunct2,
      THEN conjunct2, unfolded k1 prod.case, THEN conjunct1, THEN mp, OF connected_cached]
  \<comment> \<open>the first connection is refused\<close>
  have k2: "Kill flaky_env vm1 boot =
      (Some ''failed to connect to incus: connection refused'', vm1,
       boot\<lparr>calls := [CallConnectIncus ?url]\<rparr>)"
    by (simp add: Kill_def getClient_def v emit_def Let_def)
       (simp add: flaky_env_def lab_def connects_def boot_def)
  have c2: "connected flaky_env vm1 (boot\<lparr>calls := [CallConnectIncus ?url]\<rparr>)"
    by (simp add: connected_def flaky_env_def lab_def connects_def)
  have d2: "DeleteInstance flaky_env client name = Inr (Operation None)" for client name
    by (simp add: flaky_env_def lab_def)
  note t2 = Remove_ignores_Kill [of flaky_env vm1 boot, THEN conjunct2, THEN conjunct2,
      THEN conjunct2, unfolded k2 prod.case, THEN conjunct1, THEN mp, OF c2]
  \<comment> \<open>every connection is refused\<close>
  have k3: "Kill offline_env vm1 boot =
      (Some ''failed to connect to incus: connection refused'', vm1,
       boot\<lparr>calls := [CallConnectIncus ?url]\<rparr>)"
    by (simp add: Kill_def getClient_def v emit_def Let_def)
       (simp add: offline_env_def lab_def)
  have c3: "\<not> connected offline_env vm1 (boot\<lparr>calls := [CallConnectIncus ?url]\<rparr>)"
    by (simp add: connected_def offline_env_def lab_def v)
  have g3: "fst (getClient offline_env vm1 (boot\<lparr>calls := [CallConnectIncus ?url]\<rparr>))
     = Inl ''failed to connect to incus: connection refused''"
    by (simp add: getClient_def v Let_def) (simp add: offline_env_def lab_def)
  note t3 = Remove_ignores_Kill [of offline_env vm1 boot, THEN conjunct2, THEN conjunct2,
      THEN conjunct2, unfolded k3 prod.case, THEN conjunct2, THEN mp, OF c3, THEN conjunct1]
  from t1 t2 t3 k1 k2 g3 show ?thesis
    by (simp add: d1 d2 cc hv v)
qed

text \<open>
  The third server refutes the claim as it stands: \<open>Remove\<close> makes two attempts to
  connect, issues no delete request, and returns an error that is not one of the deletion.
\<close>

theorem Remove_without_connection:
  "Remove offline_env vm1 boot =
     (Some ''failed to connect to incus: connection refused'', vm1,
      boot\<lparr>calls := [CallConnectIncus ''https://incus.example.com:8443'',
                       CallConnectIncus ''https://incus.example.com:8443'']\<rparr>)"
proof -
  have v: "incus vm1 = None" "URL vm1 = ''https://incus.example.com:8443''"
    "calls boot = []"
    by (simp_all add: vm1_def boot_def)
  have o: "ConnectIncus offline_env n url cert key = Some ''connection refused''"
    "Sprintf0 offline_env format = format" for n url cert key format
    by (simp_all add: offline_env_def lab_def)
  show ?thesis
    by (simp add: Remove_def Kill_def getClient_def v o emit_def Let_def)
qed

section \<open>Configuration never fails\<close>

lemma PreCreateCheck_no_image:
  assumes "Image d = []"
  shows "fst (PreCreateCheck e d w) \<noteq> None"
    and "connected e d w \<Longrightarrow> GetProfile e (handle_of d) (Profile d) = None \<Longrightarrow>
         fst (PreCreateCheck e d w) = Some ''image is required''"
proof -
  show "fst (PreCreateCheck e d w) \<noteq> None"
  proof (cases "connected e d w")
    case True
    with assms show ?thesis
      by (simp add: PreCreateCheck_def getClient_connected getImage_def Let_def
          split: option.splits)
  next
    case False
    from getClient_not_connected [OF this] show ?thesis
      by (auto simp: PreCreateCheck_def)
  qed
  show "connected e d w \<Longrightarrow> GetProfile e (handle_of d) (Profile d) = None \<Longrightarrow>
         fst (PreCreateCheck e d w) = Some ''image is required''"
    using assms
    by (simp add: PreCreateCheck_def getClient_connected getImage_def Let_def)
qed

text \<open>
  Claim C10. \<open>SetConfigFromFlags\<close> returns \<open>nil\<close> for every set of flags and every
  driver; it copies the flags as they are, the image reference included. An empty image
  reference is found only by the resolution: \<open>getImage\<close> then returns
  \<open>image is required\<close>, and \<open>PreCreateCheck\<close> fails, with this very error once the
  server handle is at hand and the profile exists. An empty network name and an empty
  storage pool name are likewise found by \<open>getNetwork\<close> and \<open>getStorage\<close> only.
\<close>

theorem SetConfigFromFlags_never_fails:
  "fst (SetConfigFromFlags flags d) = None
   \<and> Image (snd (SetConfigFromFlags flags d)) = flag_String flags ''incus-image-name''
   \<and> Network (snd (SetConfigFromFlags flags d)) = flag_String flags ''incus-network-name''
   \<and> Storage (snd (SetConfigFromFlags flags d)) = flag_String flags ''incus-storage-name''
   \<and> (flag_String flags ''incus-image-name'' = [] \<longrightarrow>
        getImage e (snd (SetConfigFromFlags flags d)) w
          = (Inl ''image is required'', snd (SetConfigFromFlags flags d), w)
        \<and> fst (PreCreateCheck e (snd (SetConfigFromFlags flags d)) w) \<noteq> None
        \<and> (connected e (snd (SetConfigFromFlags flags d)) w
             \<and> GetProfile e (handle_of (snd (SetConfigFromFlags flags d)))
                  (Profile (snd (SetConfigFromFlags flags d))) = None \<longrightarrow>
             fst (PreCreateCheck e (snd (SetConfigFromFlags flags d)) w)
               = Some ''image is required''))
   \<and> (flag_String flags ''incus-network-name'' = [] \<longrightarrow>
        getNetwork e (snd (SetConfigFromFlags flags d)) w
          = (Inl ''network is required'', snd (SetConfigFromFlags flags d), w))
   \<and> (flag_String flags ''incus-storage-name'' = [] \<longrightarrow>
        getStorage e (snd (SetConfigFromFlags flags d)) w
          = (Inl ''storage is required'', snd (SetConfigFromFlags flags d), w))"
proof -
  let ?d = "snd (SetConfigFromFlags flags d)"
  have r: "fst (SetConfigFromFlags flags d) = None"
    by (simp add: SetConfigFromFlags_def Let_def)
  have i: "Image ?d = flag_String flags ''incus-image-name''"
    and n: "Network ?d = flag_String flags ''incus-network-name''"
    and s: "Storage ?d = flag_String flags ''incus-storage-name''"
    by (simp_all add: SetConfigFromFlags_def SetSwarmConfigFromFlags_def Let_def)
  have gi: "getImage e ?d w = (Inl ''image is required'', ?d, w)"
    if "flag_String flags ''incus-image-name'' = []"
    using that i by (simp add: getImage_def)
  have gn: "getNetwork e ?d w = (Inl ''network is required'', ?d, w)"
    if "flag_String flags ''incus-network-name'' = []"
    using that n by (simp add: getNetwork_def)
  have gs: "getStorage e ?d w = (Inl ''storage is required'', ?d, w)"
    if "flag_String flags ''incus-storage-name'' = []"
    using that s by (simp add: getStorage_def)
  have p1: "fst (PreCreateCheck e ?d w) \<noteq> None"
    if "flag_String flags ''incus-image-name'' = []"
    using that i PreCreateCheck_no_image(1) [of ?d e w] by simp
  have p2: "fst (PreCreateCheck e ?d w) = Some ''image is required''"
    if "flag_String flags ''incus-image-name'' = []"
      and "connected e ?d w \<and> GetProfile e (handle_of ?d) (Profile ?d) = None"
    using that i PreCreateCheck_no_image(2) [of ?d e w] by simp
  from r i n s gi gn gs p1 p2 show ?thesis by blast
qed

text \<open>
  The default flags name no image: configuration succeeds, and resolution on the
  laboratory server reports the missing image.
\<close>

theorem SetConfigFromFlags_never_fails_witness:
  "fst (SetConfigFromFlags default_flags vm1) = None
   \<and> Image (snd (SetConfigFromFlags default_flags vm1)) = []
   \<and> fst (PreCreateCheck lab (snd (SetConfigFromFlags default_flags vm1)) boot)
       = Some ''image is required''
   \<and> fst (getNetwork lab (snd (SetConfigFromFlags (default_flags\<lparr>flag_String := (\<lambda>name. [])\<rparr>) vm1)) boot)
       = Inl ''network is required''
   \<and> fst (getStorage lab (snd (SetConfigFromFlags (default_flags\<lparr>flag_String := (\<lambda>name. [])\<rparr>) vm1)) boot)
       = Inl ''storage is required''"
proof -
  let ?d = "snd (SetConfigFromFlags default_flags vm1)"
  have f: "flag_String default_flags ''incus-image-name'' = []"
    by (simp add: default_flags_def)
  have "GetProfile lab client name = None" for client name
    by (simp add: lab_def)
  then have c: "connected lab ?d boot \<and> GetProfile lab (handle_of ?d) (Profile ?d) = None"
    by simp
  have g: "flag_String (default_flags\<lparr>flag_String := (\<lambda>name. [])\<rparr>) ''incus-network-name'' = []"
    "flag_String (default_flags\<lparr>flag_String := (\<lambda>name. [])\<rparr>) ''incus-storage-name'' = []"
    by simp_all
  note t = SetConfigFromFlags_never_fails [of default_flags vm1 lab boot]
  note t1 = t [THEN conjunct1]
  note t2 = t [THEN conjunct2, THEN conjunct1]
  note t5 = t [THEN conjunct2, THEN conjunct2, THEN conjunct2, THEN conjunct2, THEN conjunct1,
      THEN mp, OF f, THEN conjunct2, THEN conjunct2, THEN mp, OF c]
  note u = SetConfigFromFlags_never_fails [of "default_flags\<lparr>flag_String := (\<lambda>name. [])\<rparr>" vm1 lab boot]
  note u6 = u [THEN conjunct2, THEN conjunct2, THEN conjunct2, THEN conjunct2, THEN conjunct2,
      THEN conjunct1, THEN mp, OF g(1)]
  note u7 = u [THEN conjunct2, THEN conjunct2, THEN conjunct2, THEN conjunct2, THEN conjunct2,
      THEN conjunct2, THEN mp, OF g(2)]
  from t1 t2 t5 u6 u7 f show ?thesis by simp
qed

section \<open>What the operations do to the descriptors\<close>

lemma emit_frame [simp]:
  "maps (emit c w) = maps w" "sources (emit c w) = sources w"
  by (simp_all add: emit_def)

lemma map_store_frame [simp]:
  "sources (map_store a k v w) = sources w"
  "calls (map_store a k v w) = calls w"
  "length (maps (map_store a k v w)) = length (maps w)"
  by (simp_all add: map_store_def)




lemma getClient_frame:
  "getClient e d w = (r, d', w') \<Longrightarrow>
   (\<exists>i. d' = d\<lparr>incus := i\<rparr>) \<and> maps w' = maps w \<and> sources w' = sources w"
proof (cases "connected e d w")
  case True
  assume "getClient e d w = (r, d', w')"
  with getClient_connected [OF True] show ?thesis by auto
next
  case False
  assume g: "getClient e d w = (r, d', w')"
  from getClient_not_connected [OF False] g have "d' = d" "maps w' = maps w"
    "sources w' = sources w" by auto
  moreover have "d = d\<lparr>incus := incus d\<rparr>" by simp
  ultimately show ?thesis by metis
qed



lemma Kill_frame:
  assumes "Kill e d w = (r, d', w')"
  shows "(\<exists>i. d' = d\<lparr>incus := i\<rparr>) \<and> maps w' = maps w \<and> sources w' = sources w"
proof -
  obtain rc d1 w1 where g: "getClient e d w = (rc, d1, w1)" by (cases "getClient e d w") auto
  from getClient_frame [OF g] assms g show ?thesis
    by (auto simp: Kill_def Let_def split: sum.splits)
qed

lemma Stop_frame:
  assumes "Stop e d w = (r, d', w')"
  shows "(\<exists>i. d' = d\<lparr>incus := i\<rparr>) \<and> maps w' = maps w \<and> sources w' = sources w"
proof -
  obtain rc d1 w1 where g: "getClient e d w = (rc, d1, w1)" by (cases "getClient e d w") auto
  from getClient_frame [OF g] assms g show ?thesis
    by (auto simp: Stop_def Let_def split: sum.splits)
qed

lemma Start_op_frame:
  assumes "Start_op e d w = (r, d', w')"
  shows "(\<exists>i. d' = d\<lparr>incus := i\<rparr>) \<and> maps w' = maps w \<and> sources w' = sources w"
proof -
  obtain rc d1 w1 where g: "getClient e d w = (rc, d1, w1)" by (cases "getClient e d w") auto
  from getClient_frame [OF g] assms g show ?thesis
    by (auto simp: Start_op_def Let_def split: sum.splits)
qed

lemma Restart_frame:
  assumes "Restart e d w = (r, d', w')"
  shows "(\<exists>i. d' = d\<lparr>incus := i\<rparr>) \<and> maps w' = maps w \<and> sources w' = sources w"
proof -
  obtain rc d1 w1 where g: "getClient e d w = (rc, d1, w1)" by (cases "getClient e d w") auto
  from getClient_frame [OF g] assms g show ?thesis
    by (auto simp: Restart_def Let_def split: sum.splits)
qed

lemma Remove_frame:
  assumes "Remove e d w = (r, d', w')"
  shows "(\<exists>i. d' = d\<lparr>incus := i\<rparr>) \<and> maps w' = maps w \<and> sources w' = sources w"
proof -
  obtain kr d0 w0 where k: "Kill e d w = (kr, d0, w0)" by (cases "Kill e d w") auto
  obtain rc d1 w1 where g: "getClient e d0 w0 = (rc, d1, w1)"
    by (cases "getClient e d0 w0") auto
  from Kill_frame [OF k] getClient_frame [OF g] assms k g show ?thesis
    by (auto simp: Remove_def Let_def split: sum.splits)
qed

lemma lifecycle_frame:
  assumes "op \<in> set [Kill, Stop, Start_op, Restart, Remove]"
    and "op e d w = (r, d', w')"
  shows "(\<exists>i. d' = d\<lparr>incus := i\<rparr>) \<and> maps w' = maps w \<and> sources w' = sources w"
  using assms Kill_frame Stop_frame Start_op_frame Restart_frame Remove_frame
  by auto

















section \<open>The descriptors after resolution\<close>








end
